theory Spec2Isabelle
  imports Complex_Main
begin

section \<open>The in-memory entity store of \<open>server/storage.ts\<close>\<close>

text \<open>
  The class \<open>MemStorage\<close> keeps ten collections, each a JavaScript \<open>Map<number, T>\<close>, and
  one counter per collection. Every method is modelled as a function that takes the store
  and returns the store after the call together with the value the method returns.

  Conventions of the embedding:
  \<^item> A JavaScript \<open>number\<close> used as an identifier, a key or a quantity is an \<open>int\<close>; the
    store only ever compares such numbers with \<open>===\<close>, tests them for truthiness and
    increments counters by one. A price or a total is a \<open>real\<close>; the store never computes
    with it. \<open>NaN\<close> and the rounding of doubles beyond \<open>2^53\<close> are outside the model.
  \<^item> A \<open>Date\<close> is its number of milliseconds since the epoch. Every method that reads the
    clock takes the reading as its argument \<open>now\<close>; a method that reads the clock several
    times gets the same reading each time.
  \<^item> A field that may hold \<open>null\<close> is an \<open>option\<close>, \<open>None\<close> standing for \<open>null\<close> (and
    for \<open>undefined\<close> where a stored object simply lacks the key).
  \<^item> A \<open>Partial<T>\<close> argument has one \<open>option\<close> per key: \<open>None\<close> when the key is absent
    (or carries \<open>undefined\<close>), \<open>Some v\<close> when it is supplied. For a nullable key the
    supplied value is itself an \<open>option\<close>, so that \<open>Some None\<close> is an explicit \<open>null\<close>.
  \<^item> \<open>console.log\<close> and the session store are not part of the model.
\<close>

subsection \<open>JavaScript maps\<close>

text \<open>
  A \<open>Map\<close> iterates in insertion order; \<open>set\<close> on a key that is present keeps the key's
  position, \<open>set\<close> on a new key appends, \<open>delete\<close> answers whether the key was present.
  The model is the list of entries in iteration order.
\<close>

type_synonym 'v jsmap = "(int \<times> 'v) list"

definition Map_get :: "'v jsmap \<Rightarrow> int \<Rightarrow> 'v option" where
  "Map_get m k = map_of m k"

definition Map_has :: "'v jsmap \<Rightarrow> int \<Rightarrow> bool" where
  "Map_has m k = (k \<in> set (map fst m))"

fun Map_set :: "'v jsmap \<Rightarrow> int \<Rightarrow> 'v \<Rightarrow> 'v jsmap" where
  "Map_set [] k v = [(k, v)]"
| "Map_set ((k', v') # m) k v =
     (if k' = k then (k, v) # m else (k', v') # Map_set m k v)"

definition Map_remove :: "'v jsmap \<Rightarrow> int \<Rightarrow> 'v jsmap" where
  "Map_remove m k = filter (\<lambda>e. fst e \<noteq> k) m"

definition Map_delete :: "'v jsmap \<Rightarrow> int \<Rightarrow> 'v jsmap \<times> bool" where
  "Map_delete m k = (Map_remove m k, Map_has m k)"

definition Map_values :: "'v jsmap \<Rightarrow> 'v list" where
  "Map_values m = map snd m"

text \<open>
  The objects of two collections, shop owners and carts, are assigned to in place
  (\<open>shopOwner.stripeCustomerId = ...\<close>, \<open>cart.updatedAt = ...\<close>) and then stored again under
  the key read from the object itself. For these two the map holds addresses and a heap
  holds the objects, so that an object reachable under two keys stays one object. Every
  other collection only ever stores a freshly built object and is a map of values.
\<close>

type_synonym ref = nat

definition deref :: "(ref \<rightharpoonup> 'a) \<Rightarrow> ref jsmap \<Rightarrow> 'a list" where
  "deref h m = List.map_filter h (Map_values m)"

definition find_ref :: "(ref \<rightharpoonup> 'a) \<Rightarrow> ('a \<Rightarrow> bool) \<Rightarrow> ref jsmap \<Rightarrow> ref option" where
  "find_ref h P m =
     List.find (\<lambda>r. case h r of None \<Rightarrow> False | Some x \<Rightarrow> P x) (Map_values m)"

subsection \<open>Operators of the language\<close>

text \<open>\<open>s || null\<close> on a string: the empty string is falsy.\<close>

definition or_null :: "string option \<Rightarrow> string option" where
  "or_null x = (case x of None \<Rightarrow> None | Some s \<Rightarrow> if s = [] then None else Some s)"

text \<open>\<open>n || null\<close> on a number: zero is falsy.\<close>

definition or_null_num :: "int option \<Rightarrow> int option" where
  "or_null_num x = (case x of None \<Rightarrow> None | Some n \<Rightarrow> if n = 0 then None else Some n)"

text \<open>
  One key of an object spread \<open>{...existing, ...partial}\<close>: the partial's value when the key
  is supplied, the existing value otherwise.
\<close>

definition spread :: "'a \<Rightarrow> 'a option \<Rightarrow> 'a" where
  "spread old new = (case new of None \<Rightarrow> old | Some v \<Rightarrow> v)"

subsection \<open>Entities\<close>

text \<open>
  Modelled from the spec: the entity types are declared in the schema module
  \<open>@shared/schema\<close>, which is not among the sources. \<open>User\<close>, \<open>Store\<close>, \<open>Category\<close>,
  \<open>Product\<close>, \<open>ShopOwner\<close> and \<open>Customer\<close> have the fields of the object literals that the
  constructor builds at these types; \<open>Cart\<close>, \<open>CartItem\<close>, \<open>Order\<close> and \<open>OrderItem\<close> have the
  fields that the store's methods write (\<open>id\<close>, the timestamps, \<open>whatsappSent\<close>, the
  nulled optional fields) or read (\<open>cartId\<close>, \<open>customerId\<close>, \<open>storeId\<close>, \<open>orderId\<close>) and the
  remaining attributes of the spec's data model. Field names carry a prefix per entity,
  since many entities share \<open>id\<close> and \<open>storeId\<close>.
\<close>

type_synonym date = int

record User =
  u_id :: int
  u_username :: string
  u_password :: string
  u_email :: string
  u_name :: string
  u_role :: string
  u_createdAt :: date

record Store =
  st_id :: int
  st_name :: string
  st_slug :: "string option"
  st_logoUrl :: "string option"
  st_whatsappNumber :: string
  st_instagramUrl :: "string option"
  st_facebookUrl :: "string option"
  st_showSocialMedia :: bool
  st_active :: bool
  st_createdAt :: date
  st_updatedAt :: date
  st_templateId :: "int option"

record Category =
  c_id :: int
  c_name :: string
  c_storeId :: int
  c_createdAt :: date

record Product =
  p_id :: int
  p_name :: string
  p_price :: real
  p_description :: "string option"
  p_imageUrl :: "string option"
  p_storeId :: int
  p_categoryId :: "int option"
  p_active :: bool
  p_createdAt :: date
  p_updatedAt :: date

record ShopOwner =
  so_id :: int
  so_userId :: int
  so_storeId :: "int option"
  so_subscriptionStatus :: string
  so_subscriptionExpiresAt :: "date option"
  so_stripeCustomerId :: "string option"
  so_stripePriceId :: "string option"
  so_stripeSubscriptionId :: "string option"

record Customer =
  cu_id :: int
  cu_userId :: int
  cu_address :: "string option"
  cu_phone :: "string option"

record Cart =
  ca_id :: int
  ca_customerId :: int
  ca_storeId :: int
  ca_createdAt :: date
  ca_updatedAt :: date

record CartItem =
  ci_id :: int
  ci_cartId :: int
  ci_productId :: int
  ci_quantity :: int

record Order =
  o_id :: int
  o_storeId :: int
  o_customerId :: "int option"
  o_customerName :: string
  o_customerPhone :: "string option"
  o_customerAddress :: "string option"
  o_deliveryMethod :: string
  o_notes :: "string option"
  o_total :: real
  o_whatsappSent :: bool
  o_createdAt :: date

record OrderItem =
  oi_id :: int
  oi_orderId :: int
  oi_productName :: string
  oi_price :: real
  oi_quantity :: int

subsection \<open>Arguments of the create and update methods\<close>

text \<open>
  Modelled from the spec: the schema module \<open>@shared/schema\<close>, which declares the
  \<open>Insert*\<close> types, is not among the sources. Each insert type below has the attributes
  that the spec's data model gives the entity and that the create method does not
  overwrite; the optional ones are an \<open>option\<close>. \<open>InsertProduct\<close> and \<open>InsertStore\<close> carry
  the optional \<open>active\<close> flag that the spread \<open>...product\<close> / \<open>...store\<close> would copy.
\<close>

record InsertUser =
  iu_username :: string
  iu_password :: string
  iu_email :: string
  iu_name :: string
  iu_role :: string

record InsertStore =
  ist_name :: string
  ist_slug :: "string option"
  ist_logoUrl :: "string option"
  ist_whatsappNumber :: string
  ist_instagramUrl :: "string option"
  ist_facebookUrl :: "string option"
  ist_showSocialMedia :: bool
  ist_active :: "bool option"
  ist_templateId :: "int option"

record InsertCategory =
  ic_name :: string
  ic_storeId :: int

record InsertProduct =
  ip_name :: string
  ip_price :: real
  ip_description :: "string option"
  ip_imageUrl :: "string option"
  ip_storeId :: int
  ip_categoryId :: "int option"
  ip_active :: "bool option"

record InsertShopOwner =
  iso_userId :: int
  iso_storeId :: "int option"
  iso_subscriptionStatus :: string
  iso_subscriptionExpiresAt :: "date option"

record InsertCustomer =
  icu_userId :: int
  icu_address :: "string option"
  icu_phone :: "string option"

record InsertCart =
  ica_customerId :: int
  ica_storeId :: int

record InsertCartItem =
  ici_cartId :: int
  ici_productId :: int
  ici_quantity :: int

record InsertOrder =
  io_storeId :: int
  io_customerId :: "int option"
  io_customerName :: string
  io_customerPhone :: "string option"
  io_customerAddress :: "string option"
  io_deliveryMethod :: string
  io_notes :: "string option"
  io_total :: real

record InsertOrderItem =
  ioi_orderId :: int
  ioi_productName :: string
  ioi_price :: real
  ioi_quantity :: int

text \<open>\<open>Partial<T>\<close>: every key of \<open>T\<close>, each optional.\<close>

record PartialUser =
  pu_id :: "int option"
  pu_username :: "string option"
  pu_password :: "string option"
  pu_email :: "string option"
  pu_name :: "string option"
  pu_role :: "string option"
  pu_createdAt :: "date option"

record PartialStore =
  pst_id :: "int option"
  pst_name :: "string option"
  pst_slug :: "string option option"
  pst_logoUrl :: "string option option"
  pst_whatsappNumber :: "string option"
  pst_instagramUrl :: "string option option"
  pst_facebookUrl :: "string option option"
  pst_showSocialMedia :: "bool option"
  pst_active :: "bool option"
  pst_createdAt :: "date option"
  pst_updatedAt :: "date option"
  pst_templateId :: "int option option"

record PartialCategory =
  pc_id :: "int option"
  pc_name :: "string option"
  pc_storeId :: "int option"
  pc_createdAt :: "date option"

record PartialProduct =
  pp_id :: "int option"
  pp_name :: "string option"
  pp_price :: "real option"
  pp_description :: "string option option"
  pp_imageUrl :: "string option option"
  pp_storeId :: "int option"
  pp_categoryId :: "int option option"
  pp_active :: "bool option"
  pp_createdAt :: "date option"
  pp_updatedAt :: "date option"

record PartialShopOwner =
  pso_id :: "int option"
  pso_userId :: "int option"
  pso_storeId :: "int option option"
  pso_subscriptionStatus :: "string option"
  pso_subscriptionExpiresAt :: "date option option"
  pso_stripeCustomerId :: "string option option"
  pso_stripePriceId :: "string option option"
  pso_stripeSubscriptionId :: "string option option"

record PartialCustomer =
  pcu_id :: "int option"
  pcu_userId :: "int option"
  pcu_address :: "string option option"
  pcu_phone :: "string option option"

text \<open>The empty object \<open>{}\<close> at the two partial types the store builds itself.\<close>

definition empty_PartialStore :: PartialStore where
  "empty_PartialStore =
     \<lparr>pst_id = None, pst_name = None, pst_slug = None, pst_logoUrl = None,
      pst_whatsappNumber = None, pst_instagramUrl = None, pst_facebookUrl = None,
      pst_showSocialMedia = None, pst_active = None, pst_createdAt = None,
      pst_updatedAt = None, pst_templateId = None\<rparr>"

definition empty_PartialProduct :: PartialProduct where
  "empty_PartialProduct =
     \<lparr>pp_id = None, pp_name = None, pp_price = None, pp_description = None,
      pp_imageUrl = None, pp_storeId = None, pp_categoryId = None, pp_active = None,
      pp_createdAt = None, pp_updatedAt = None\<rparr>"

text \<open>The object spread \<open>{...existing, ...partial}\<close> at each entity type.\<close>

definition spread_User :: "User \<Rightarrow> PartialUser \<Rightarrow> User" where
  "spread_User e p =
     \<lparr>u_id = spread (u_id e) (pu_id p),
      u_username = spread (u_username e) (pu_username p),
      u_password = spread (u_password e) (pu_password p),
      u_email = spread (u_email e) (pu_email p),
      u_name = spread (u_name e) (pu_name p),
      u_role = spread (u_role e) (pu_role p),
      u_createdAt = spread (u_createdAt e) (pu_createdAt p)\<rparr>"

definition spread_Store :: "Store \<Rightarrow> PartialStore \<Rightarrow> Store" where
  "spread_Store e p =
     \<lparr>st_id = spread (st_id e) (pst_id p),
      st_name = spread (st_name e) (pst_name p),
      st_slug = spread (st_slug e) (pst_slug p),
      st_logoUrl = spread (st_logoUrl e) (pst_logoUrl p),
      st_whatsappNumber = spread (st_whatsappNumber e) (pst_whatsappNumber p),
      st_instagramUrl = spread (st_instagramUrl e) (pst_instagramUrl p),
      st_facebookUrl = spread (st_facebookUrl e) (pst_facebookUrl p),
      st_showSocialMedia = spread (st_showSocialMedia e) (pst_showSocialMedia p),
      st_active = spread (st_active e) (pst_active p),
      st_createdAt = spread (st_createdAt e) (pst_createdAt p),
      st_updatedAt = spread (st_updatedAt e) (pst_updatedAt p),
      st_templateId = spread (st_templateId e) (pst_templateId p)\<rparr>"

definition spread_Category :: "Category \<Rightarrow> PartialCategory \<Rightarrow> Category" where
  "spread_Category e p =
     \<lparr>c_id = spread (c_id e) (pc_id p),
      c_name = spread (c_name e) (pc_name p),
      c_storeId = spread (c_storeId e) (pc_storeId p),
      c_createdAt = spread (c_createdAt e) (pc_createdAt p)\<rparr>"

definition spread_Product :: "Product \<Rightarrow> PartialProduct \<Rightarrow> Product" where
  "spread_Product e p =
     \<lparr>p_id = spread (p_id e) (pp_id p),
      p_name = spread (p_name e) (pp_name p),
      p_price = spread (p_price e) (pp_price p),
      p_description = spread (p_description e) (pp_description p),
      p_imageUrl = spread (p_imageUrl e) (pp_imageUrl p),
      p_storeId = spread (p_storeId e) (pp_storeId p),
      p_categoryId = spread (p_categoryId e) (pp_categoryId p),
      p_active = spread (p_active e) (pp_active p),
      p_createdAt = spread (p_createdAt e) (pp_createdAt p),
      p_updatedAt = spread (p_updatedAt e) (pp_updatedAt p)\<rparr>"

definition spread_ShopOwner :: "ShopOwner \<Rightarrow> PartialShopOwner \<Rightarrow> ShopOwner" where
  "spread_ShopOwner e p =
     \<lparr>so_id = spread (so_id e) (pso_id p),
      so_userId = spread (so_userId e) (pso_userId p),
      so_storeId = spread (so_storeId e) (pso_storeId p),
      so_subscriptionStatus = spread (so_subscriptionStatus e) (pso_subscriptionStatus p),
      so_subscriptionExpiresAt =
        spread (so_subscriptionExpiresAt e) (pso_subscriptionExpiresAt p),
      so_stripeCustomerId = spread (so_stripeCustomerId e) (pso_stripeCustomerId p),
      so_stripePriceId = spread (so_stripePriceId e) (pso_stripePriceId p),
      so_stripeSubscriptionId =
        spread (so_stripeSubscriptionId e) (pso_stripeSubscriptionId p)\<rparr>"

definition spread_Customer :: "Customer \<Rightarrow> PartialCustomer \<Rightarrow> Customer" where
  "spread_Customer e p =
     \<lparr>cu_id = spread (cu_id e) (pcu_id p),
      cu_userId = spread (cu_userId e) (pcu_userId p),
      cu_address = spread (cu_address e) (pcu_address p),
      cu_phone = spread (cu_phone e) (pcu_phone p)\<rparr>"

text \<open>The second argument of \<open>updateUserStripeInfo\<close>.\<close>

record StripeInfo =
  customerId_of :: string
  subscriptionId_of :: string

subsection \<open>The store\<close>

record MemStorage =
  users :: "User jsmap"
  stores :: "Store jsmap"
  categories :: "Category jsmap"
  products :: "Product jsmap"
  shopOwners :: "ref jsmap"
  customers :: "Customer jsmap"
  carts :: "ref jsmap"
  cartItems :: "CartItem jsmap"
  orders :: "Order jsmap"
  orderItems :: "OrderItem jsmap"
  userId :: int
  storeId :: int
  categoryId :: int
  productId :: int
  shopOwnerId :: int
  customerId :: int
  cartId :: int
  cartItemId :: int
  orderId :: int
  orderItemId :: int
  shopOwnerHeap :: "ref \<rightharpoonup> ShopOwner"
  cartHeap :: "ref \<rightharpoonup> Cart"
  nextRef :: ref

subsection \<open>The constructor\<close>

text \<open>The maps and counters as the constructor first sets them; the heap is empty.\<close>

definition empty_MemStorage :: MemStorage where
  "empty_MemStorage =
     \<lparr>users = [], stores = [], categories = [], products = [], shopOwners = [],
      customers = [], carts = [], cartItems = [], orders = [], orderItems = [],
      userId = 1, storeId = 1, categoryId = 1, productId = 1, shopOwnerId = 1,
      customerId = 1, cartId = 1, cartItemId = 1, orderId = 1, orderItemId = 1,
      shopOwnerHeap = Map.empty, cartHeap = Map.empty, nextRef = 0\<rparr>"

text \<open>
  The constructor then seeds the store, reading each identifier off its counter
  (\<open>id: this.userId++\<close>). Characters beyond ASCII are written by their code, one \<open>char\<close>
  per UTF-16 code unit of the source string (all of them are below \<open>0x100\<close>).
\<close>

definition thirty_days :: int where
  "thirty_days = 30 * 24 * 60 * 60 * 1000"

definition sampleProduct ::
  "int \<Rightarrow> string \<Rightarrow> real \<Rightarrow> string \<Rightarrow> string \<Rightarrow> int \<Rightarrow> int \<Rightarrow> date \<Rightarrow> Product" where
  "sampleProduct i n pr d img sid cid now =
     \<lparr>p_id = i, p_name = n, p_price = pr, p_description = Some d, p_imageUrl = Some img,
      p_storeId = sid, p_categoryId = Some cid, p_active = True,
      p_createdAt = now, p_updatedAt = now\<rparr>"

definition seedCategory :: "int \<Rightarrow> string \<Rightarrow> int \<Rightarrow> date \<Rightarrow> Category" where
  "seedCategory i n sid now = \<lparr>c_id = i, c_name = n, c_storeId = sid, c_createdAt = now\<rparr>"

definition MemStorage_new :: "date \<Rightarrow> MemStorage" where
  "MemStorage_new now =
    (let s = empty_MemStorage;
         adminUser =
           \<lparr>u_id = userId s, u_username = ''admin'',
            u_password = ''$2b$10$Fh6MUHRGJDQgFRREWjGwH.zoD5mTJo/LP91zhcGWHYpO7sHBUj6T.'',
            u_email = ''admin@moments.com'', u_name = ''Administrador'',
            u_role = ''admin'', u_createdAt = now\<rparr>;
         s = s\<lparr>userId := userId s + 1\<rparr>;
         s = s\<lparr>users := Map_set (users s) (u_id adminUser) adminUser\<rparr>;
         defaultStore =
           \<lparr>st_id = storeId s, st_name = ''Loja Moments Paris'', st_slug = Some ''moments'',
            st_logoUrl = Some ''/placeholder-logo.jpg'', st_whatsappNumber = ''11987654321'',
            st_instagramUrl = None, st_facebookUrl = None, st_showSocialMedia = False,
            st_active = True, st_createdAt = now, st_updatedAt = now,
            st_templateId = None\<rparr>;
         s = s\<lparr>storeId := storeId s + 1\<rparr>;
         s = s\<lparr>stores := Map_set (stores s) (st_id defaultStore) defaultStore\<rparr>;
         shopOwnerUser =
           \<lparr>u_id = userId s, u_username = ''lojista'',
            u_password = ''$2b$10$2zZREfX0Ssa81Y4PYIxlaeYMQKvagrdLWVlVQ0tXaQ7u1nU2vhSne'',
            u_email = ''lojista@moments.com'', u_name = ''Lojista Demo'',
            u_role = ''shopowner'', u_createdAt = now\<rparr>;
         s = s\<lparr>userId := userId s + 1\<rparr>;
         s = s\<lparr>users := Map_set (users s) (u_id shopOwnerUser) shopOwnerUser\<rparr>;
         shopOwner =
           \<lparr>so_id = shopOwnerId s, so_userId = u_id shopOwnerUser,
            so_storeId = Some (st_id defaultStore), so_subscriptionStatus = ''trial'',
            so_subscriptionExpiresAt = Some (now + thirty_days),
            so_stripeCustomerId = None, so_stripePriceId = None,
            so_stripeSubscriptionId = None\<rparr>;
         s = s\<lparr>shopOwnerId := shopOwnerId s + 1\<rparr>;
         r = nextRef s;
         s = s\<lparr>shopOwnerHeap := (shopOwnerHeap s)(r \<mapsto> shopOwner), nextRef := r + 1\<rparr>;
         s = s\<lparr>shopOwners := Map_set (shopOwners s) (so_id shopOwner) r\<rparr>;
         skinCareCategory = seedCategory (categoryId s) ''Cuidados com a Pele'' (st_id defaultStore) now;
         s = s\<lparr>categoryId := categoryId s + 1\<rparr>;
         s = s\<lparr>categories := Map_set (categories s) (c_id skinCareCategory) skinCareCategory\<rparr>;
         hairCareCategory = seedCategory (categoryId s) ''Cuidados com o Cabelo'' (st_id defaultStore) now;
         s = s\<lparr>categoryId := categoryId s + 1\<rparr>;
         s = s\<lparr>categories := Map_set (categories s) (c_id hairCareCategory) hairCareCategory\<rparr>;
         perfumeCategory = seedCategory (categoryId s) ''Perfumes'' (st_id defaultStore) now;
         s = s\<lparr>categoryId := categoryId s + 1\<rparr>;
         s = s\<lparr>categories := Map_set (categories s) (c_id perfumeCategory) perfumeCategory\<rparr>;
         bodyCareCategory = seedCategory (categoryId s) ''Cuidados Corporais'' (st_id defaultStore) now;
         s = s\<lparr>categoryId := categoryId s + 1\<rparr>;
         s = s\<lparr>categories := Map_set (categories s) (c_id bodyCareCategory) bodyCareCategory\<rparr>;
         product1 =
           sampleProduct (productId s) ''Creme Hidratante Facial'' 89.9
             (''Hidrata'' @ [CHR 0xE7] @ [CHR 0xE3] @ ''o profunda para todos os tipos de pele. F'' @ [CHR 0xF3] @ ''rmula n'' @ [CHR 0xE3] @ ''o oleosa com vitamina E.'')
             ''/placeholder-product-1.jpg'' (st_id defaultStore) (c_id skinCareCategory) now;
         s = s\<lparr>productId := productId s + 1\<rparr>;
         product2 =
           sampleProduct (productId s) (''S'' @ [CHR 0xE9] @ ''rum Facial Antioxidante'') 129.9
             ''Com vitamina C que combate os radicais livres e sinais de envelhecimento.''
             ''/placeholder-product-2.jpg'' (st_id defaultStore) (c_id skinCareCategory) now;
         s = s\<lparr>productId := productId s + 1\<rparr>;
         product3 =
           sampleProduct (productId s) (''M'' @ [CHR 0xE1] @ ''scara Capilar Reparadora'') 75.9
             ''Tratamento intensivo para cabelos danificados. Recupera a maciez e o brilho natural.''
             ''/placeholder-product-3.jpg'' (st_id defaultStore) (c_id hairCareCategory) now;
         s = s\<lparr>productId := productId s + 1\<rparr>;
         product4 =
           sampleProduct (productId s) ''Protetor Solar FPS 50'' 69.9
             (''Prote'' @ [CHR 0xE7] @ [CHR 0xE3] @ ''o UVA/UVB de amplo espectro. Textura leve, n'' @ [CHR 0xE3] @ ''o oleosa e resistente '' @ [CHR 0xE0] @ '' '' @ [CHR 0xE1] @ ''gua.'')
             ''/placeholder-product-4.jpg'' (st_id defaultStore) (c_id skinCareCategory) now;
         s = s\<lparr>productId := productId s + 1\<rparr>;
         product5 =
           sampleProduct (productId s) ''Perfume Floral'' 159.9
             (''Fragr'' @ [CHR 0xE2] @ ''ncia sofisticada com notas de jasmim, rosa e baunilha. Longa dura'' @ [CHR 0xE7] @ [CHR 0xE3] @ ''o.'')
             ''/placeholder-product-5.jpg'' (st_id defaultStore) (c_id perfumeCategory) now;
         s = s\<lparr>productId := productId s + 1\<rparr>;
         product6 =
           sampleProduct (productId s) ([CHR 0xD3] @ ''leo Corporal Relaxante'') 85.9
             (''Hidrata'' @ [CHR 0xE7] @ [CHR 0xE3] @ ''o profunda com aroma terap'' @ [CHR 0xEA] @ ''utico de lavanda e camomila. Ideal para massagens.'')
             ''/placeholder-product-6.jpg'' (st_id defaultStore) (c_id bodyCareCategory) now;
         s = s\<lparr>productId := productId s + 1\<rparr>;
         sampleProducts = [product1, product2, product3, product4, product5, product6];
         s = foldl (\<lambda>s product. s\<lparr>products := Map_set (products s) (p_id product) product\<rparr>)
               s sampleProducts;
         customerUser =
           \<lparr>u_id = userId s, u_username = ''cliente'',
            u_password = ''$2b$10$2TYxJv7TIhCGNz5LkO18Y.8BpYU1AHVlBNrfLODmyH3RnoIQqcyEi'',
            u_email = ''cliente@email.com'', u_name = ''Cliente Demo'',
            u_role = ''customer'', u_createdAt = now\<rparr>;
         s = s\<lparr>userId := userId s + 1\<rparr>;
         s = s\<lparr>users := Map_set (users s) (u_id customerUser) customerUser\<rparr>;
         customer =
           \<lparr>cu_id = customerId s, cu_userId = u_id customerUser,
            cu_address = Some (''Rua das Flores, 123, S'' @ [CHR 0xE3] @ ''o Paulo - SP''),
            cu_phone = Some ''11998765432''\<rparr>;
         s = s\<lparr>customerId := customerId s + 1\<rparr>;
         s = s\<lparr>customers := Map_set (customers s) (cu_id customer) customer\<rparr>
     in s)"

subsection \<open>Category methods\<close>

definition getCategories :: "MemStorage \<Rightarrow> int \<Rightarrow> Category list" where
  "getCategories s sid = filter (\<lambda>category. c_storeId category = sid) (Map_values (categories s))"

definition getCategory :: "MemStorage \<Rightarrow> int \<Rightarrow> Category option" where
  "getCategory s i = Map_get (categories s) i"

definition createCategory :: "MemStorage \<Rightarrow> date \<Rightarrow> InsertCategory \<Rightarrow> MemStorage \<times> Category" where
  "createCategory s now category =
    (let i = categoryId s;
         s = s\<lparr>categoryId := categoryId s + 1\<rparr>;
         newCategory =
           \<lparr>c_id = i, c_name = ic_name category, c_storeId = ic_storeId category,
            c_createdAt = now\<rparr>
     in (s\<lparr>categories := Map_set (categories s) i newCategory\<rparr>, newCategory))"

definition updateCategory ::
  "MemStorage \<Rightarrow> int \<Rightarrow> PartialCategory \<Rightarrow> MemStorage \<times> Category option" where
  "updateCategory s i category =
    (case Map_get (categories s) i of
       None \<Rightarrow> (s, None)
     | Some existingCategory \<Rightarrow>
         (let updatedCategory = spread_Category existingCategory category
          in (s\<lparr>categories := Map_set (categories s) i updatedCategory\<rparr>,
              Some updatedCategory)))"

definition deleteCategory :: "MemStorage \<Rightarrow> int \<Rightarrow> MemStorage \<times> bool" where
  "deleteCategory s i =
    (let (m, present) = Map_delete (categories s) i in (s\<lparr>categories := m\<rparr>, present))"

subsection \<open>User methods\<close>

definition getUser :: "MemStorage \<Rightarrow> int \<Rightarrow> User option" where
  "getUser s i = Map_get (users s) i"

definition getUserByUsername :: "MemStorage \<Rightarrow> string \<Rightarrow> User option" where
  "getUserByUsername s username =
     List.find (\<lambda>user. u_username user = username) (Map_values (users s))"

definition getUserByEmail :: "MemStorage \<Rightarrow> string \<Rightarrow> User option" where
  "getUserByEmail s email = List.find (\<lambda>user. u_email user = email) (Map_values (users s))"

definition getUsersByRole :: "MemStorage \<Rightarrow> string \<Rightarrow> User list" where
  "getUsersByRole s role = filter (\<lambda>user. u_role user = role) (Map_values (users s))"

definition createUser :: "MemStorage \<Rightarrow> date \<Rightarrow> InsertUser \<Rightarrow> MemStorage \<times> User" where
  "createUser s now user =
    (let i = userId s;
         s = s\<lparr>userId := userId s + 1\<rparr>;
         newUser =
           \<lparr>u_id = i, u_username = iu_username user, u_password = iu_password user,
            u_email = iu_email user, u_name = iu_name user, u_role = iu_role user,
            u_createdAt = now\<rparr>
     in (s\<lparr>users := Map_set (users s) i newUser\<rparr>, newUser))"

definition updateUser :: "MemStorage \<Rightarrow> int \<Rightarrow> PartialUser \<Rightarrow> MemStorage \<times> User option" where
  "updateUser s i user =
    (case Map_get (users s) i of
       None \<Rightarrow> (s, None)
     | Some existingUser \<Rightarrow>
         (let updatedUser = spread_User existingUser user
          in (s\<lparr>users := Map_set (users s) i updatedUser\<rparr>, Some updatedUser)))"

subsection \<open>Store methods\<close>

definition getStore :: "MemStorage \<Rightarrow> int \<Rightarrow> Store option" where
  "getStore s i = Map_get (stores s) i"

definition getStores :: "MemStorage \<Rightarrow> Store list" where
  "getStores s = Map_values (stores s)"

definition getStoreByOwner :: "MemStorage \<Rightarrow> int \<Rightarrow> Store option" where
  "getStoreByOwner s ownerId =
    (case List.find (\<lambda>owner. so_userId owner = ownerId) (deref (shopOwnerHeap s) (shopOwners s)) of
       None \<Rightarrow> None
     | Some shopOwner \<Rightarrow>
         (case so_storeId shopOwner of
            None \<Rightarrow> None
          | Some sid \<Rightarrow> if sid = 0 then None else Map_get (stores s) sid))"

definition getStoreBySlug :: "MemStorage \<Rightarrow> string \<Rightarrow> Store option" where
  "getStoreBySlug s slug = List.find (\<lambda>store. st_slug store = Some slug) (Map_values (stores s))"

definition createStore :: "MemStorage \<Rightarrow> date \<Rightarrow> InsertStore \<Rightarrow> MemStorage \<times> Store" where
  "createStore s now store =
    (let i = storeId s;
         s = s\<lparr>storeId := storeId s + 1\<rparr>;
         newStore =
           \<lparr>st_id = i, st_name = ist_name store, st_slug = or_null (ist_slug store),
            st_logoUrl = ist_logoUrl store, st_whatsappNumber = ist_whatsappNumber store,
            st_instagramUrl = ist_instagramUrl store, st_facebookUrl = ist_facebookUrl store,
            st_showSocialMedia = ist_showSocialMedia store, st_active = True,
            st_createdAt = now, st_updatedAt = now,
            st_templateId = or_null_num (ist_templateId store)\<rparr>
     in (s\<lparr>stores := Map_set (stores s) i newStore\<rparr>, newStore))"

text \<open>
  \<open>updateStore\<close> and \<open>updateProduct\<close> first copy the keys they handle from the argument
  into a fresh object (\<open>if (store.name !== undefined) normalizedStore.name = store.name\<close>)
  and spread only that object over the existing record.
\<close>

definition normalizedStore :: "PartialStore \<Rightarrow> PartialStore" where
  "normalizedStore store =
    (let n = empty_PartialStore;
         n = (if pst_name store \<noteq> None then n\<lparr>pst_name := pst_name store\<rparr> else n);
         n = (if pst_slug store \<noteq> None then n\<lparr>pst_slug := pst_slug store\<rparr> else n);
         n = (if pst_whatsappNumber store \<noteq> None
              then n\<lparr>pst_whatsappNumber := pst_whatsappNumber store\<rparr> else n);
         n = (if pst_logoUrl store \<noteq> None then n\<lparr>pst_logoUrl := pst_logoUrl store\<rparr> else n);
         n = (if pst_instagramUrl store \<noteq> None
              then n\<lparr>pst_instagramUrl := pst_instagramUrl store\<rparr> else n);
         n = (if pst_facebookUrl store \<noteq> None
              then n\<lparr>pst_facebookUrl := pst_facebookUrl store\<rparr> else n);
         n = (if pst_showSocialMedia store \<noteq> None
              then n\<lparr>pst_showSocialMedia := pst_showSocialMedia store\<rparr> else n);
         n = (if pst_active store \<noteq> None then n\<lparr>pst_active := pst_active store\<rparr> else n);
         n = (if pst_templateId store \<noteq> None
              then n\<lparr>pst_templateId := pst_templateId store\<rparr> else n)
     in n)"

definition updateStore ::
  "MemStorage \<Rightarrow> date \<Rightarrow> int \<Rightarrow> PartialStore \<Rightarrow> MemStorage \<times> Store option" where
  "updateStore s now i store =
    (case Map_get (stores s) i of
       None \<Rightarrow> (s, None)
     | Some existingStore \<Rightarrow>
         (let updatedStore =
                (spread_Store existingStore (normalizedStore store))\<lparr>st_updatedAt := now\<rparr>
          in (s\<lparr>stores := Map_set (stores s) i updatedStore\<rparr>, Some updatedStore)))"

definition deleteStore :: "MemStorage \<Rightarrow> int \<Rightarrow> MemStorage \<times> bool" where
  "deleteStore s i =
    (let (m, present) = Map_delete (stores s) i in (s\<lparr>stores := m\<rparr>, present))"

subsection \<open>Product methods\<close>

text \<open>
  \<open>if (storeId)\<close> on an optional number: \<open>undefined\<close> and \<open>0\<close> are falsy.
\<close>

definition truthy :: "int option \<Rightarrow> bool" where
  "truthy x = (case x of None \<Rightarrow> False | Some n \<Rightarrow> n \<noteq> 0)"

definition getProducts :: "MemStorage \<Rightarrow> int option \<Rightarrow> Product list" where
  "getProducts s sid =
    (let allProducts = Map_values (products s)
     in if truthy sid
        then filter (\<lambda>product. Some (p_storeId product) = sid) allProducts
        else allProducts)"

definition getProduct :: "MemStorage \<Rightarrow> int \<Rightarrow> Product option" where
  "getProduct s i = Map_get (products s) i"

definition createProduct :: "MemStorage \<Rightarrow> date \<Rightarrow> InsertProduct \<Rightarrow> MemStorage \<times> Product" where
  "createProduct s now product =
    (let i = productId s;
         s = s\<lparr>productId := productId s + 1\<rparr>;
         newProduct =
           \<lparr>p_id = i, p_name = ip_name product, p_price = ip_price product,
            p_description = or_null (ip_description product),
            p_imageUrl = or_null (ip_imageUrl product),
            p_storeId = ip_storeId product, p_categoryId = ip_categoryId product,
            p_active = True, p_createdAt = now, p_updatedAt = now\<rparr>
     in (s\<lparr>products := Map_set (products s) i newProduct\<rparr>, newProduct))"

definition normalizedProduct :: "PartialProduct \<Rightarrow> PartialProduct" where
  "normalizedProduct product =
    (let n = empty_PartialProduct;
         n = (if pp_name product \<noteq> None then n\<lparr>pp_name := pp_name product\<rparr> else n);
         n = (if pp_price product \<noteq> None then n\<lparr>pp_price := pp_price product\<rparr> else n);
         n = (if pp_description product \<noteq> None
              then n\<lparr>pp_description := pp_description product\<rparr> else n);
         n = (if pp_imageUrl product \<noteq> None
              then n\<lparr>pp_imageUrl := pp_imageUrl product\<rparr> else n);
         n = (if pp_active product \<noteq> None then n\<lparr>pp_active := pp_active product\<rparr> else n);
         n = (if pp_categoryId product \<noteq> None
              then n\<lparr>pp_categoryId := pp_categoryId product\<rparr> else n)
     in n)"

definition updateProduct ::
  "MemStorage \<Rightarrow> date \<Rightarrow> int \<Rightarrow> PartialProduct \<Rightarrow> MemStorage \<times> Product option" where
  "updateProduct s now i product =
    (case Map_get (products s) i of
       None \<Rightarrow> (s, None)
     | Some existingProduct \<Rightarrow>
         (let updatedProduct =
                (spread_Product existingProduct (normalizedProduct product))
                  \<lparr>p_updatedAt := now\<rparr>
          in (s\<lparr>products := Map_set (products s) i updatedProduct\<rparr>, Some updatedProduct)))"

definition deleteProduct :: "MemStorage \<Rightarrow> int \<Rightarrow> MemStorage \<times> bool" where
  "deleteProduct s i =
    (let (m, present) = Map_delete (products s) i in (s\<lparr>products := m\<rparr>, present))"

subsection \<open>Shop owner methods\<close>

definition getShopOwner :: "MemStorage \<Rightarrow> int \<Rightarrow> ShopOwner option" where
  "getShopOwner s i = Option.bind (Map_get (shopOwners s) i) (shopOwnerHeap s)"

text \<open>The address of the first shop owner, in iteration order, with the given \<open>userId\<close>.\<close>

definition shopOwnerRefByUserId :: "MemStorage \<Rightarrow> int \<Rightarrow> ref option" where
  "shopOwnerRefByUserId s uid =
     find_ref (shopOwnerHeap s) (\<lambda>owner. so_userId owner = uid) (shopOwners s)"

definition getShopOwnerByUserId :: "MemStorage \<Rightarrow> int \<Rightarrow> ShopOwner option" where
  "getShopOwnerByUserId s uid = Option.bind (shopOwnerRefByUserId s uid) (shopOwnerHeap s)"

definition createShopOwner :: "MemStorage \<Rightarrow> InsertShopOwner \<Rightarrow> MemStorage \<times> ShopOwner" where
  "createShopOwner s shopOwner =
    (let i = shopOwnerId s;
         s = s\<lparr>shopOwnerId := shopOwnerId s + 1\<rparr>;
         newShopOwner =
           \<lparr>so_id = i, so_userId = iso_userId shopOwner, so_storeId = iso_storeId shopOwner,
            so_subscriptionStatus = iso_subscriptionStatus shopOwner,
            so_subscriptionExpiresAt = iso_subscriptionExpiresAt shopOwner,
            so_stripeCustomerId = None, so_stripePriceId = None,
            so_stripeSubscriptionId = None\<rparr>;
         r = nextRef s;
         s = s\<lparr>shopOwnerHeap := (shopOwnerHeap s)(r \<mapsto> newShopOwner), nextRef := r + 1\<rparr>
     in (s\<lparr>shopOwners := Map_set (shopOwners s) i r\<rparr>, newShopOwner))"

definition updateShopOwnerSubscription ::
  "MemStorage \<Rightarrow> int \<Rightarrow> PartialShopOwner \<Rightarrow> MemStorage \<times> ShopOwner option" where
  "updateShopOwnerSubscription s i data =
    (case getShopOwner s i of
       None \<Rightarrow> (s, None)
     | Some existingShopOwner \<Rightarrow>
         (let updatedShopOwner = spread_ShopOwner existingShopOwner data;
              r = nextRef s;
              s = s\<lparr>shopOwnerHeap := (shopOwnerHeap s)(r \<mapsto> updatedShopOwner),
                    nextRef := r + 1\<rparr>
          in (s\<lparr>shopOwners := Map_set (shopOwners s) i r\<rparr>, Some updatedShopOwner)))"

subsection \<open>Customer methods\<close>

definition getCustomer :: "MemStorage \<Rightarrow> int \<Rightarrow> Customer option" where
  "getCustomer s i = Map_get (customers s) i"

definition getCustomerByUserId :: "MemStorage \<Rightarrow> int \<Rightarrow> Customer option" where
  "getCustomerByUserId s uid =
     List.find (\<lambda>customer. cu_userId customer = uid) (Map_values (customers s))"

definition createCustomer :: "MemStorage \<Rightarrow> InsertCustomer \<Rightarrow> MemStorage \<times> Customer" where
  "createCustomer s customer =
    (let i = customerId s;
         s = s\<lparr>customerId := customerId s + 1\<rparr>;
         newCustomer =
           \<lparr>cu_id = i, cu_userId = icu_userId customer,
            cu_address = or_null (icu_address customer),
            cu_phone = or_null (icu_phone customer)\<rparr>
     in (s\<lparr>customers := Map_set (customers s) i newCustomer\<rparr>, newCustomer))"

definition updateCustomer ::
  "MemStorage \<Rightarrow> int \<Rightarrow> PartialCustomer \<Rightarrow> MemStorage \<times> Customer option" where
  "updateCustomer s i customer =
    (case Map_get (customers s) i of
       None \<Rightarrow> (s, None)
     | Some existingCustomer \<Rightarrow>
         (let updatedCustomer = spread_Customer existingCustomer customer
          in (s\<lparr>customers := Map_set (customers s) i updatedCustomer\<rparr>,
              Some updatedCustomer)))"

subsection \<open>Cart methods\<close>

definition getCart :: "MemStorage \<Rightarrow> int \<Rightarrow> Cart option" where
  "getCart s i = Option.bind (Map_get (carts s) i) (cartHeap s)"

definition getCartByCustomer :: "MemStorage \<Rightarrow> int \<Rightarrow> int \<Rightarrow> Cart option" where
  "getCartByCustomer s cid sid =
     List.find (\<lambda>cart. ca_customerId cart = cid \<and> ca_storeId cart = sid)
       (deref (cartHeap s) (carts s))"

definition createCart :: "MemStorage \<Rightarrow> date \<Rightarrow> InsertCart \<Rightarrow> MemStorage \<times> Cart" where
  "createCart s now cart =
    (let i = cartId s;
         s = s\<lparr>cartId := cartId s + 1\<rparr>;
         newCart =
           \<lparr>ca_id = i, ca_customerId = ica_customerId cart, ca_storeId = ica_storeId cart,
            ca_createdAt = now, ca_updatedAt = now\<rparr>;
         r = nextRef s;
         s = s\<lparr>cartHeap := (cartHeap s)(r \<mapsto> newCart), nextRef := r + 1\<rparr>
     in (s\<lparr>carts := Map_set (carts s) i r\<rparr>, newCart))"

text \<open>
  \<open>deleteCart\<close> first takes the items of the cart out of a copy of the values
  (\<open>Array.from(...).filter(...)\<close>) and deletes each one under the key \<open>item.id\<close>.
\<close>

definition deleteCart :: "MemStorage \<Rightarrow> int \<Rightarrow> MemStorage \<times> bool" where
  "deleteCart s i =
    (let items = filter (\<lambda>item. ci_cartId item = i) (Map_values (cartItems s));
         s = foldl (\<lambda>s item. s\<lparr>cartItems := fst (Map_delete (cartItems s) (ci_id item))\<rparr>)
               s items;
         (m, present) = Map_delete (carts s) i
     in (s\<lparr>carts := m\<rparr>, present))"

subsection \<open>Cart item methods\<close>

text \<open>
  The three methods that change a cart item share one block, written out in each of them:
  \<open>const cart = this.carts.get(k); if (cart) { cart.updatedAt = new Date();
  this.carts.set(cart.id, cart); }\<close>. The assignment changes the object in the heap; the
  \<open>set\<close> stores its address under the key read from the object.
\<close>

definition touchCart :: "MemStorage \<Rightarrow> date \<Rightarrow> int \<Rightarrow> MemStorage" where
  "touchCart s now k =
    (case Map_get (carts s) k of
       None \<Rightarrow> s
     | Some r \<Rightarrow>
         (case cartHeap s r of
            None \<Rightarrow> s
          | Some cart \<Rightarrow>
              (let s = s\<lparr>cartHeap := (cartHeap s)(r \<mapsto> cart\<lparr>ca_updatedAt := now\<rparr>)\<rparr>
               in s\<lparr>carts := Map_set (carts s) (ca_id cart) r\<rparr>)))"

definition getCartItems :: "MemStorage \<Rightarrow> int \<Rightarrow> CartItem list" where
  "getCartItems s cid = filter (\<lambda>item. ci_cartId item = cid) (Map_values (cartItems s))"

definition getCartItem :: "MemStorage \<Rightarrow> int \<Rightarrow> CartItem option" where
  "getCartItem s i = Map_get (cartItems s) i"

definition createCartItem :: "MemStorage \<Rightarrow> date \<Rightarrow> InsertCartItem \<Rightarrow> MemStorage \<times> CartItem" where
  "createCartItem s now cartItem =
    (let i = cartItemId s;
         s = s\<lparr>cartItemId := cartItemId s + 1\<rparr>;
         newCartItem =
           \<lparr>ci_id = i, ci_cartId = ici_cartId cartItem, ci_productId = ici_productId cartItem,
            ci_quantity = ici_quantity cartItem\<rparr>;
         s = s\<lparr>cartItems := Map_set (cartItems s) i newCartItem\<rparr>
     in (touchCart s now (ici_cartId cartItem), newCartItem))"

definition updateCartItem ::
  "MemStorage \<Rightarrow> date \<Rightarrow> int \<Rightarrow> int \<Rightarrow> MemStorage \<times> CartItem option" where
  "updateCartItem s now i quantity =
    (case Map_get (cartItems s) i of
       None \<Rightarrow> (s, None)
     | Some existingCartItem \<Rightarrow>
         (let updatedCartItem = existingCartItem\<lparr>ci_quantity := quantity\<rparr>;
              s = s\<lparr>cartItems := Map_set (cartItems s) i updatedCartItem\<rparr>
          in (touchCart s now (ci_cartId existingCartItem), Some updatedCartItem)))"

definition deleteCartItem :: "MemStorage \<Rightarrow> date \<Rightarrow> int \<Rightarrow> MemStorage \<times> bool" where
  "deleteCartItem s now i =
    (case Map_get (cartItems s) i of
       None \<Rightarrow> (s, False)
     | Some cartItem \<Rightarrow>
         (let s = touchCart s now (ci_cartId cartItem);
              (m, present) = Map_delete (cartItems s) i
          in (s\<lparr>cartItems := m\<rparr>, present)))"

subsection \<open>Order methods\<close>

definition getOrders :: "MemStorage \<Rightarrow> int option \<Rightarrow> int option \<Rightarrow> Order list" where
  "getOrders s sid cid =
    (let os = Map_values (orders s);
         os = (if truthy sid then filter (\<lambda>order. Some (o_storeId order) = sid) os else os);
         os = (if truthy cid then filter (\<lambda>order. o_customerId order = cid) os else os)
     in os)"

definition getOrder :: "MemStorage \<Rightarrow> int \<Rightarrow> Order option" where
  "getOrder s i = Map_get (orders s) i"

definition createOrder :: "MemStorage \<Rightarrow> date \<Rightarrow> InsertOrder \<Rightarrow> MemStorage \<times> Order" where
  "createOrder s now order =
    (let i = orderId s;
         s = s\<lparr>orderId := orderId s + 1\<rparr>;
         newOrder =
           \<lparr>o_id = i, o_storeId = io_storeId order, o_customerId = io_customerId order,
            o_customerName = io_customerName order,
            o_customerPhone = or_null (io_customerPhone order),
            o_customerAddress = or_null (io_customerAddress order),
            o_deliveryMethod = io_deliveryMethod order,
            o_notes = or_null (io_notes order), o_total = io_total order,
            o_whatsappSent = False, o_createdAt = now\<rparr>
     in (s\<lparr>orders := Map_set (orders s) i newOrder\<rparr>, newOrder))"

definition updateOrderWhatsappStatus ::
  "MemStorage \<Rightarrow> int \<Rightarrow> bool \<Rightarrow> MemStorage \<times> Order option" where
  "updateOrderWhatsappStatus s i sent =
    (case Map_get (orders s) i of
       None \<Rightarrow> (s, None)
     | Some existingOrder \<Rightarrow>
         (let updatedOrder = existingOrder\<lparr>o_whatsappSent := sent\<rparr>
          in (s\<lparr>orders := Map_set (orders s) i updatedOrder\<rparr>, Some updatedOrder)))"

subsection \<open>Order item methods\<close>

definition getOrderItems :: "MemStorage \<Rightarrow> int \<Rightarrow> OrderItem list" where
  "getOrderItems s oid = filter (\<lambda>item. oi_orderId item = oid) (Map_values (orderItems s))"

definition createOrderItem :: "MemStorage \<Rightarrow> InsertOrderItem \<Rightarrow> MemStorage \<times> OrderItem" where
  "createOrderItem s orderItem =
    (let i = orderItemId s;
         s = s\<lparr>orderItemId := orderItemId s + 1\<rparr>;
         newOrderItem =
           \<lparr>oi_id = i, oi_orderId = ioi_orderId orderItem,
            oi_productName = ioi_productName orderItem, oi_price = ioi_price orderItem,
            oi_quantity = ioi_quantity orderItem\<rparr>
     in (s\<lparr>orderItems := Map_set (orderItems s) i newOrderItem\<rparr>, newOrderItem))"

subsection \<open>Stripe-related methods\<close>

text \<open>
  \<open>updateStripeCustomerId\<close> is the one method with a \<open>throw\<close>; its result is the thrown
  error or the returned user. The throw comes before any assignment, so the store it
  leaves behind is the store it found.
\<close>

datatype error = Error string

definition updateStripeCustomerId ::
  "MemStorage \<Rightarrow> int \<Rightarrow> string \<Rightarrow> MemStorage \<times> (error + User)" where
  "updateStripeCustomerId s uid stripeCustomerId =
    (case getUser s uid of
       None \<Rightarrow> (s, Inl (Error (''Usu'' @ [CHR 0xE1] @ ''rio n'' @ [CHR 0xE3] @ ''o encontrado'')))
     | Some user \<Rightarrow>
         (case shopOwnerRefByUserId s uid of
            None \<Rightarrow> (s, Inr user)
          | Some r \<Rightarrow>
              (case shopOwnerHeap s r of
                 None \<Rightarrow> (s, Inr user)
               | Some shopOwner \<Rightarrow>
                   (let shopOwner = shopOwner\<lparr>so_stripeCustomerId := Some stripeCustomerId\<rparr>;
                        s = s\<lparr>shopOwnerHeap := (shopOwnerHeap s)(r \<mapsto> shopOwner)\<rparr>
                    in (s\<lparr>shopOwners := Map_set (shopOwners s) (so_id shopOwner) r\<rparr>,
                        Inr user)))))"

definition updateUserStripeInfo ::
  "MemStorage \<Rightarrow> date \<Rightarrow> int \<Rightarrow> StripeInfo \<Rightarrow> MemStorage \<times> ShopOwner option" where
  "updateUserStripeInfo s now uid info =
    (case shopOwnerRefByUserId s uid of
       None \<Rightarrow> (s, None)
     | Some r \<Rightarrow>
         (case shopOwnerHeap s r of
            None \<Rightarrow> (s, None)
          | Some shopOwner \<Rightarrow>
              (let shopOwner =
                     shopOwner\<lparr>so_stripeCustomerId := Some (customerId_of info),
                               so_stripeSubscriptionId := Some (subscriptionId_of info),
                               so_subscriptionStatus := ''active'',
                               so_subscriptionExpiresAt := Some (now + thirty_days)\<rparr>;
                   s = s\<lparr>shopOwnerHeap := (shopOwnerHeap s)(r \<mapsto> shopOwner)\<rparr>
               in (s\<lparr>shopOwners := Map_set (shopOwners s) (so_id shopOwner) r\<rparr>,
                   Some shopOwner))))"

subsection \<open>Sequences of calls\<close>

text \<open>
  A caller drives the store by a sequence of method calls. The calls that can change the
  store are collected in one type; the lookups leave the store as it is and are left out.
\<close>

datatype call =
    CreateUser InsertUser
  | UpdateUser int PartialUser
  | CreateStore InsertStore
  | UpdateStore int PartialStore
  | DeleteStore int
  | CreateCategory InsertCategory
  | UpdateCategory int PartialCategory
  | DeleteCategory int
  | CreateProduct InsertProduct
  | UpdateProduct int PartialProduct
  | DeleteProduct int
  | CreateShopOwner InsertShopOwner
  | UpdateShopOwnerSubscription int PartialShopOwner
  | CreateCustomer InsertCustomer
  | UpdateCustomer int PartialCustomer
  | CreateCart InsertCart
  | DeleteCart int
  | CreateCartItem InsertCartItem
  | UpdateCartItem int int
  | DeleteCartItem int
  | CreateOrder InsertOrder
  | UpdateOrderWhatsappStatus int bool
  | CreateOrderItem InsertOrderItem
  | UpdateStripeCustomerId int string
  | UpdateUserStripeInfo int StripeInfo

datatype kind =
  KUser | KStore | KCategory | KProduct | KShopOwner | KCustomer | KCart | KCartItem
  | KOrder | KOrderItem


text \<open>
  One call at clock reading \<open>now\<close>: the store after it and, for a create, the kind of the
  record together with the identifier of the record the method returned.
\<close>

fun perform :: "MemStorage \<Rightarrow> date \<Rightarrow> call \<Rightarrow> MemStorage \<times> (kind \<times> int) option" where
  "perform s now (CreateUser x) = (case createUser s now x of (s', u) \<Rightarrow> (s', Some (KUser, u_id u)))"
| "perform s now (UpdateUser i x) = (fst (updateUser s i x), None)"
| "perform s now (CreateStore x) =
     (case createStore s now x of (s', st) \<Rightarrow> (s', Some (KStore, st_id st)))"
| "perform s now (UpdateStore i x) = (fst (updateStore s now i x), None)"
| "perform s now (DeleteStore i) = (fst (deleteStore s i), None)"
| "perform s now (CreateCategory x) =
     (case createCategory s now x of (s', c) \<Rightarrow> (s', Some (KCategory, c_id c)))"
| "perform s now (UpdateCategory i x) = (fst (updateCategory s i x), None)"
| "perform s now (DeleteCategory i) = (fst (deleteCategory s i), None)"
| "perform s now (CreateProduct x) =
     (case createProduct s now x of (s', p) \<Rightarrow> (s', Some (KProduct, p_id p)))"
| "perform s now (UpdateProduct i x) = (fst (updateProduct s now i x), None)"
| "perform s now (DeleteProduct i) = (fst (deleteProduct s i), None)"
| "perform s now (CreateShopOwner x) =
     (case createShopOwner s x of (s', so) \<Rightarrow> (s', Some (KShopOwner, so_id so)))"
| "perform s now (UpdateShopOwnerSubscription i x) =
     (fst (updateShopOwnerSubscription s i x), None)"
| "perform s now (CreateCustomer x) =
     (case createCustomer s x of (s', cu) \<Rightarrow> (s', Some (KCustomer, cu_id cu)))"
| "perform s now (UpdateCustomer i x) = (fst (updateCustomer s i x), None)"
| "perform s now (CreateCart x) =
     (case createCart s now x of (s', ca) \<Rightarrow> (s', Some (KCart, ca_id ca)))"
| "perform s now (DeleteCart i) = (fst (deleteCart s i), None)"
| "perform s now (CreateCartItem x) =
     (case createCartItem s now x of (s', ci) \<Rightarrow> (s', Some (KCartItem, ci_id ci)))"
| "perform s now (UpdateCartItem i q) = (fst (updateCartItem s now i q), None)"
| "perform s now (DeleteCartItem i) = (fst (deleteCartItem s now i), None)"
| "perform s now (CreateOrder x) =
     (case createOrder s now x of (s', ord) \<Rightarrow> (s', Some (KOrder, o_id ord)))"
| "perform s now (UpdateOrderWhatsappStatus i b) = (fst (updateOrderWhatsappStatus s i b), None)"
| "perform s now (CreateOrderItem x) =
     (case createOrderItem s x of (s', oi) \<Rightarrow> (s', Some (KOrderItem, oi_id oi)))"
| "perform s now (UpdateStripeCustomerId uid c) = (fst (updateStripeCustomerId s uid c), None)"
| "perform s now (UpdateUserStripeInfo uid info) = (fst (updateUserStripeInfo s now uid info), None)"

text \<open>The store after a sequence of calls, each with its clock reading.\<close>

fun run :: "MemStorage \<Rightarrow> (date \<times> call) list \<Rightarrow> MemStorage" where
  "run s [] = s"
| "run s ((now, c) # cs) = run (fst (perform s now c)) cs"





subsection \<open>Invariants of the collections\<close>

text \<open>
  Two facts about the store that hold after the constructor and after every call: each
  cart item is stored under its own \<open>id\<close>, no key occurring twice; the products are stored
  under their own \<open>id\<close>, in ascending order of it, and below the product counter.
\<close>

definition cartItems_keyed :: "MemStorage \<Rightarrow> bool" where
  "cartItems_keyed s =
     (list_all (\<lambda>e. ci_id (snd e) = fst e) (cartItems s) \<and> distinct (map fst (cartItems s)))"

definition products_ordered :: "MemStorage \<Rightarrow> bool" where
  "products_ordered s =
     (list_all (\<lambda>e. p_id (snd e) = fst e \<and> fst e < productId s) (products s)
      \<and> sorted_wrt (<) (map fst (products s)))"

subsection \<open>Example data\<close>

text \<open>
  The product of the spec's example, \<open>{name: "A", price: 10}\<close>, created at clock reading
  1 in the store the constructor built at clock reading 0; it gets the identifier 7.
\<close>

definition productA_input :: InsertProduct where
  "productA_input =
     \<lparr>ip_name = ''A'', ip_price = 10, ip_description = Some ''Batom'', ip_imageUrl = None,
      ip_storeId = 1, ip_categoryId = Some 1, ip_active = None\<rparr>"

definition productA :: Product where
  "productA =
     \<lparr>p_id = 7, p_name = ''A'', p_price = 10, p_description = Some ''Batom'',
      p_imageUrl = None, p_storeId = 1, p_categoryId = Some 1, p_active = True,
      p_createdAt = 1, p_updatedAt = 1\<rparr>"

definition store_with_A :: MemStorage where
  "store_with_A = fst (createProduct (MemStorage_new 0) 1 productA_input)"

text \<open>The seeded store, shop owner and shop-owner user, as built at clock reading 0.\<close>

definition seeded_store :: Store where
  "seeded_store =
     \<lparr>st_id = 1, st_name = ''Loja Moments Paris'', st_slug = Some ''moments'',
      st_logoUrl = Some ''/placeholder-logo.jpg'', st_whatsappNumber = ''11987654321'',
      st_instagramUrl = None, st_facebookUrl = None, st_showSocialMedia = False,
      st_active = True, st_createdAt = 0, st_updatedAt = 0, st_templateId = None\<rparr>"

definition seeded_shopOwner :: ShopOwner where
  "seeded_shopOwner =
     \<lparr>so_id = 1, so_userId = 2, so_storeId = Some 1, so_subscriptionStatus = ''trial'',
      so_subscriptionExpiresAt = Some 2592000000, so_stripeCustomerId = None,
      so_stripePriceId = None, so_stripeSubscriptionId = None\<rparr>"

definition seeded_shopOwnerUser :: User where
  "seeded_shopOwnerUser =
     \<lparr>u_id = 2, u_username = ''lojista'',
      u_password = ''$2b$10$2zZREfX0Ssa81Y4PYIxlaeYMQKvagrdLWVlVQ0tXaQ7u1nU2vhSne'',
      u_email = ''lojista@moments.com'', u_name = ''Lojista Demo'',
      u_role = ''shopowner'', u_createdAt = 0\<rparr>"

definition stripe_info :: StripeInfo where
  "stripe_info = \<lparr>customerId_of = ''cus_1'', subscriptionId_of = ''sub_1''\<rparr>"

text \<open>
  Calls on the seeded store: three products created for stores 1, 2 and 1, the seeded
  product 2 deleted in between; and the spec's cart with two items.
\<close>

definition product_calls :: "(date \<times> call) list" where
  "product_calls =
     [(1, CreateProduct productA_input),
      (2, CreateProduct (productA_input\<lparr>ip_name := ''B'', ip_storeId := 2\<rparr>)),
      (3, DeleteProduct 2),
      (4, CreateProduct (productA_input\<lparr>ip_name := ''C''\<rparr>))]"

definition cart_calls :: "(date \<times> call) list" where
  "cart_calls =
     [(1, CreateCart \<lparr>ica_customerId = 1, ica_storeId = 1\<rparr>),
      (2, CreateCartItem \<lparr>ici_cartId = 1, ici_productId = 1, ici_quantity = 2\<rparr>),
      (3, CreateCartItem \<lparr>ici_cartId = 1, ici_productId = 2, ici_quantity = 1\<rparr>)]"

section \<open>Properties\<close>

subsection \<open>Facts about maps\<close>

lemma Map_get_set_same: "Map_get (Map_set m k v) k = Some v"
  by (induction m) (auto simp: Map_get_def)

lemma Map_get_set_other: "k' \<noteq> k \<Longrightarrow> Map_get (Map_set m k v) k' = Map_get m k'"
  by (induction m) (auto simp: Map_get_def)

lemma Map_get_None_iff: "Map_get m k = None \<longleftrightarrow> \<not> Map_has m k"
  by (simp add: Map_get_def Map_has_def map_of_eq_None_iff)

lemma Map_set_fresh: "\<not> Map_has m k \<Longrightarrow> Map_set m k v = m @ [(k, v)]"
  by (induction m) (auto simp: Map_has_def)

lemma keys_Map_set_present: "Map_has m k \<Longrightarrow> map fst (Map_set m k v) = map fst m"
  by (induction m) (force simp: Map_has_def)+

lemma list_all_Map_set: "list_all P m \<Longrightarrow> P (k, v) \<Longrightarrow> list_all P (Map_set m k v)"
  by (induction m) auto

lemma Map_get_SomeD: "Map_get m k = Some v \<Longrightarrow> (k, v) \<in> set m"
  by (simp add: Map_get_def map_of_SomeD)

lemma keys_Map_set: "set (map fst (Map_set m k v)) = insert k (set (map fst m))"
proof (cases "Map_has m k")
  case True
  then show ?thesis
    using keys_Map_set_present [OF True, of v] by (auto simp: Map_has_def)
next
  case False
  then show ?thesis by (simp add: Map_set_fresh)
qed

lemma distinct_Map_set: "distinct (map fst m) \<Longrightarrow> distinct (map fst (Map_set m k v))"
  by (cases "Map_has m k") (simp_all add: keys_Map_set_present Map_set_fresh Map_has_def)

lemma distinct_keys_filter: "distinct (map fst m) \<Longrightarrow> distinct (map fst (filter Q m))"
  by (simp add: distinct_map_filter)

lemma list_all_filter: "list_all P m \<Longrightarrow> list_all P (filter Q m)"
  by (simp add: list_all_iff)

lemma find_ref_Nil: "find_ref h P [] = None"
  by (simp add: find_ref_def Map_values_def)

lemma find_ref_Cons:
  "find_ref h P ((k, r) # m) =
     (if (case h r of None \<Rightarrow> False | Some x \<Rightarrow> P x) then Some r else find_ref h P m)"
  by (simp add: find_ref_def Map_values_def)

lemma find_ref_holds: "find_ref h P m = Some r \<Longrightarrow> \<exists>x. h r = Some x \<and> P x"
  by (induction m) (auto simp: find_ref_Nil find_ref_Cons split: if_splits option.splits)

text \<open>
  Assigning to the object a scan found, in a way that keeps the scanned property, and
  storing its address under any key leaves it the first object the scan finds.
\<close>

lemma find_ref_after_assignment:
  "find_ref h P m = Some r \<Longrightarrow> P x' \<Longrightarrow>
   find_ref (h(r \<mapsto> x')) P (Map_set m k r) = Some r"
proof (induction m)
  case Nil
  then show ?case by (simp add: find_ref_Nil)
next
  case (Cons e m)
  obtain k' r' where e: "e = (k', r')" by (cases e)
  show ?case
  proof (cases "case h r' of None \<Rightarrow> False | Some x \<Rightarrow> P x")
    case True
    with Cons.prems e have "r' = r" by (simp add: find_ref_Cons)
    with Cons.prems e show ?thesis by (simp add: find_ref_Cons)
  next
    case False
    with Cons.prems e have rest: "find_ref h P m = Some r" by (simp add: find_ref_Cons)
    then obtain x where "h r = Some x" "P x" using find_ref_holds by blast
    with False have "r' \<noteq> r" by auto
    with False e Cons.IH [OF rest Cons.prems(2)] Cons.prems(2) show ?thesis
      by (simp add: find_ref_Cons)
  qed
qed

subsection \<open>The seeded store\<close>

lemma sample_ids:
  "p_id (sampleProduct i n pr d img sid cid now) = i"
  "c_id (seedCategory j m sid' now') = j"
  by (simp_all add: sampleProduct_def seedCategory_def)

text \<open>The store the constructor builds, written out.\<close>

lemma MemStorage_new_eq:
  "MemStorage_new now =
     \<lparr>users =
        [(1, \<lparr>u_id = 1, u_username = ''admin'',
              u_password = ''$2b$10$Fh6MUHRGJDQgFRREWjGwH.zoD5mTJo/LP91zhcGWHYpO7sHBUj6T.'',
              u_email = ''admin@moments.com'', u_name = ''Administrador'',
              u_role = ''admin'', u_createdAt = now\<rparr>),
         (2, \<lparr>u_id = 2, u_username = ''lojista'',
              u_password = ''$2b$10$2zZREfX0Ssa81Y4PYIxlaeYMQKvagrdLWVlVQ0tXaQ7u1nU2vhSne'',
              u_email = ''lojista@moments.com'', u_name = ''Lojista Demo'',
              u_role = ''shopowner'', u_createdAt = now\<rparr>),
         (3, \<lparr>u_id = 3, u_username = ''cliente'',
              u_password = ''$2b$10$2TYxJv7TIhCGNz5LkO18Y.8BpYU1AHVlBNrfLODmyH3RnoIQqcyEi'',
              u_email = ''cliente@email.com'', u_name = ''Cliente Demo'',
              u_role = ''customer'', u_createdAt = now\<rparr>)],
      stores =
        [(1, \<lparr>st_id = 1, st_name = ''Loja Moments Paris'', st_slug = Some ''moments'',
              st_logoUrl = Some ''/placeholder-logo.jpg'',
              st_whatsappNumber = ''11987654321'', st_instagramUrl = None,
              st_facebookUrl = None, st_showSocialMedia = False, st_active = True,
              st_createdAt = now, st_updatedAt = now, st_templateId = None\<rparr>)],
      categories =
        [(1, seedCategory 1 ''Cuidados com a Pele'' 1 now),
         (2, seedCategory 2 ''Cuidados com o Cabelo'' 1 now),
         (3, seedCategory 3 ''Perfumes'' 1 now),
         (4, seedCategory 4 ''Cuidados Corporais'' 1 now)],
      products =
        [(1, sampleProduct 1 ''Creme Hidratante Facial'' 89.9
               (''Hidrata'' @ [CHR 0xE7] @ [CHR 0xE3] @ ''o profunda para todos os tipos de pele. F'' @ [CHR 0xF3] @ ''rmula n'' @ [CHR 0xE3] @ ''o oleosa com vitamina E.'')
               ''/placeholder-product-1.jpg'' 1 1 now),
         (2, sampleProduct 2 (''S'' @ [CHR 0xE9] @ ''rum Facial Antioxidante'') 129.9
               ''Com vitamina C que combate os radicais livres e sinais de envelhecimento.''
               ''/placeholder-product-2.jpg'' 1 1 now),
         (3, sampleProduct 3 (''M'' @ [CHR 0xE1] @ ''scara Capilar Reparadora'') 75.9
               ''Tratamento intensivo para cabelos danificados. Recupera a maciez e o brilho natural.''
               ''/placeholder-product-3.jpg'' 1 2 now),
         (4, sampleProduct 4 ''Protetor Solar FPS 50'' 69.9
               (''Prote'' @ [CHR 0xE7] @ [CHR 0xE3] @ ''o UVA/UVB de amplo espectro. Textura leve, n'' @ [CHR 0xE3] @ ''o oleosa e resistente '' @ [CHR 0xE0] @ '' '' @ [CHR 0xE1] @ ''gua.'')
               ''/placeholder-product-4.jpg'' 1 1 now),
         (5, sampleProduct 5 ''Perfume Floral'' 159.9
               (''Fragr'' @ [CHR 0xE2] @ ''ncia sofisticada com notas de jasmim, rosa e baunilha. Longa dura'' @ [CHR 0xE7] @ [CHR 0xE3] @ ''o.'')
               ''/placeholder-product-5.jpg'' 1 3 now),
         (6, sampleProduct 6 ([CHR 0xD3] @ ''leo Corporal Relaxante'') 85.9
               (''Hidrata'' @ [CHR 0xE7] @ [CHR 0xE3] @ ''o profunda com aroma terap'' @ [CHR 0xEA] @ ''utico de lavanda e camomila. Ideal para massagens.'')
               ''/placeholder-product-6.jpg'' 1 4 now)],
      shopOwners = [(1, 0)],
      customers =
        [(1, \<lparr>cu_id = 1, cu_userId = 3,
              cu_address = Some (''Rua das Flores, 123, S'' @ [CHR 0xE3] @ ''o Paulo - SP''),
              cu_phone = Some ''11998765432''\<rparr>)],
      carts = [], cartItems = [], orders = [], orderItems = [],
      userId = 4, storeId = 2, categoryId = 5, productId = 7, shopOwnerId = 2,
      customerId = 2, cartId = 1, cartItemId = 1, orderId = 1, orderItemId = 1,
      shopOwnerHeap =
        [0 \<mapsto> \<lparr>so_id = 1, so_userId = 2, so_storeId = Some 1,
                so_subscriptionStatus = ''trial'',
                so_subscriptionExpiresAt = Some (now + 2592000000),
                so_stripeCustomerId = None, so_stripePriceId = None,
                so_stripeSubscriptionId = None\<rparr>],
      cartHeap = Map.empty, nextRef = 1\<rparr>"
  by (simp add: MemStorage_new_def empty_MemStorage_def Let_def thirty_days_def sample_ids)

lemma seed_keys:
  "map fst (users (MemStorage_new now)) = [1, 2, 3]"
  "map fst (stores (MemStorage_new now)) = [1]"
  "map fst (categories (MemStorage_new now)) = [1, 2, 3, 4]"
  "map fst (products (MemStorage_new now)) = [1, 2, 3, 4, 5, 6]"
  "shopOwners (MemStorage_new now) = [(1, 0)]"
  "map fst (customers (MemStorage_new now)) = [1]"
  "carts (MemStorage_new now) = []"
  "cartItems (MemStorage_new now) = []"
  "orders (MemStorage_new now) = []"
  "orderItems (MemStorage_new now) = []"
  by (simp_all add: MemStorage_new_eq)

lemma seed_counters:
  "userId (MemStorage_new now) = 4"
  "storeId (MemStorage_new now) = 2"
  "categoryId (MemStorage_new now) = 5"
  "productId (MemStorage_new now) = 7"
  "shopOwnerId (MemStorage_new now) = 2"
  "customerId (MemStorage_new now) = 2"
  "cartId (MemStorage_new now) = 1"
  "cartItemId (MemStorage_new now) = 1"
  "orderId (MemStorage_new now) = 1"
  "orderItemId (MemStorage_new now) = 1"
  by (simp_all add: MemStorage_new_eq)

lemma seed_shopOwnerHeap:
  "shopOwnerHeap (MemStorage_new now) =
     [0 \<mapsto> \<lparr>so_id = 1, so_userId = 2, so_storeId = Some 1, so_subscriptionStatus = ''trial'',
             so_subscriptionExpiresAt = Some (now + 2592000000), so_stripeCustomerId = None,
             so_stripePriceId = None, so_stripeSubscriptionId = None\<rparr>]"
  by (simp add: MemStorage_new_eq)

lemma seed_getShopOwnerByUserId:
  "getShopOwnerByUserId (MemStorage_new now) uid =
     (if uid = 2
      then Some \<lparr>so_id = 1, so_userId = 2, so_storeId = Some 1, so_subscriptionStatus = ''trial'',
             so_subscriptionExpiresAt = Some (now + 2592000000), so_stripeCustomerId = None,
             so_stripePriceId = None, so_stripeSubscriptionId = None\<rparr>
      else None)"
  by (simp add: getShopOwnerByUserId_def shopOwnerRefByUserId_def find_ref_Cons find_ref_Nil
      seed_keys seed_shopOwnerHeap)

lemma store_with_A_products: "Map_get (products store_with_A) 7 = Some productA"
  by (simp add: store_with_A_def createProduct_def Let_def seed_counters Map_get_set_same
      productA_input_def productA_def or_null_def)

lemma store_with_A_stores: "Map_get (stores store_with_A) 1 = Some seeded_store"
  by (simp add: store_with_A_def createProduct_def Let_def MemStorage_new_eq Map_get_def
      seeded_store_def)

lemma seed_getUser_2: "getUser (MemStorage_new 0) 2 = Some seeded_shopOwnerUser"
  by (simp add: getUser_def Map_get_def MemStorage_new_eq seeded_shopOwnerUser_def)

subsection \<open>Creating\<close>

text \<open>
  Claim C10. The product that \<open>createProduct\<close> returns and the store that \<open>createStore\<close>
  returns are active whatever the input carries in its \<open>active\<close> key (absent, \<open>true\<close> or
  \<open>false\<close>): the literal \<open>active: true\<close> comes after the spread of the input.
\<close>

theorem create_forces_active:
  "p_active (snd (createProduct s now (product\<lparr>ip_active := a\<rparr>)))
   \<and> st_active (snd (createStore s now (store\<lparr>ist_active := b\<rparr>)))"
  by (simp add: createProduct_def createStore_def Let_def)

theorem create_forces_active_witness:
  "ip_active (productA_input\<lparr>ip_active := Some False\<rparr>) = Some False
   \<and> p_active (snd (createProduct (MemStorage_new 0) 1 (productA_input\<lparr>ip_active := Some False\<rparr>)))
   \<and> st_active
       (snd (createStore (MemStorage_new 0) 1
          \<lparr>ist_name = ''Loja B'', ist_slug = None, ist_logoUrl = None,
           ist_whatsappNumber = ''11900000000'', ist_instagramUrl = None,
           ist_facebookUrl = None, ist_showSocialMedia = False, ist_active = Some False,
           ist_templateId = None\<rparr>))"
  using create_forces_active [where s = "MemStorage_new 0" and now = 1
      and product = productA_input and a = "Some False" and b = "Some False"
      and store =
        "\<lparr>ist_name = ''Loja B'', ist_slug = None, ist_logoUrl = None,
          ist_whatsappNumber = ''11900000000'', ist_instagramUrl = None,
          ist_facebookUrl = None, ist_showSocialMedia = False, ist_active = Some False,
          ist_templateId = None\<rparr>"]
  by simp

subsection \<open>Updating\<close>

text \<open>
  Claim C9. When the identifier is not a key of the collection, each of the eight update
  methods returns \<open>undefined\<close> and hands back the store exactly as it was. None of them
  has a \<open>throw\<close>, so the returned pair is all a call can produce.
\<close>

theorem update_absent_not_found:
  "(\<not> Map_has (users s) i \<longrightarrow> updateUser s i pu = (s, None))
   \<and> (\<not> Map_has (stores s) i \<longrightarrow> updateStore s now i pst = (s, None))
   \<and> (\<not> Map_has (categories s) i \<longrightarrow> updateCategory s i pc = (s, None))
   \<and> (\<not> Map_has (products s) i \<longrightarrow> updateProduct s now i pp = (s, None))
   \<and> (\<not> Map_has (shopOwners s) i \<longrightarrow> updateShopOwnerSubscription s i pso = (s, None))
   \<and> (\<not> Map_has (customers s) i \<longrightarrow> updateCustomer s i pcu = (s, None))
   \<and> (\<not> Map_has (cartItems s) i \<longrightarrow> updateCartItem s now i q = (s, None))
   \<and> (\<not> Map_has (orders s) i \<longrightarrow> updateOrderWhatsappStatus s i sent = (s, None))"
  by (simp add: Map_get_None_iff [symmetric] updateUser_def updateStore_def updateCategory_def
      updateProduct_def updateShopOwnerSubscription_def getShopOwner_def updateCustomer_def
      updateCartItem_def updateOrderWhatsappStatus_def)

theorem update_absent_not_found_witness:
  "\<not> Map_has (users (MemStorage_new 0)) 99
   \<and> updateUser (MemStorage_new 0) 99
        \<lparr>pu_id = None, pu_username = None, pu_password = None, pu_email = None,
         pu_name = Some ''Ana'', pu_role = None, pu_createdAt = None\<rparr>
      = (MemStorage_new 0, None)
   \<and> \<not> Map_has (stores (MemStorage_new 0)) 99
   \<and> updateStore (MemStorage_new 0) 5 99 (empty_PartialStore\<lparr>pst_name := Some ''Loja''\<rparr>)
      = (MemStorage_new 0, None)
   \<and> \<not> Map_has (categories (MemStorage_new 0)) 99
   \<and> updateCategory (MemStorage_new 0) 99
        \<lparr>pc_id = None, pc_name = Some ''Maquiagem'', pc_storeId = None, pc_createdAt = None\<rparr>
      = (MemStorage_new 0, None)
   \<and> \<not> Map_has (products (MemStorage_new 0)) 99
   \<and> updateProduct (MemStorage_new 0) 5 99 (empty_PartialProduct\<lparr>pp_price := Some 12\<rparr>)
      = (MemStorage_new 0, None)
   \<and> \<not> Map_has (shopOwners (MemStorage_new 0)) 99
   \<and> updateShopOwnerSubscription (MemStorage_new 0) 99
        \<lparr>pso_id = None, pso_userId = None, pso_storeId = None,
         pso_subscriptionStatus = Some ''expired'', pso_subscriptionExpiresAt = None,
         pso_stripeCustomerId = None, pso_stripePriceId = None,
         pso_stripeSubscriptionId = None\<rparr>
      = (MemStorage_new 0, None)
   \<and> \<not> Map_has (customers (MemStorage_new 0)) 99
   \<and> updateCustomer (MemStorage_new 0) 99
        \<lparr>pcu_id = None, pcu_userId = None, pcu_address = None, pcu_phone = Some None\<rparr>
      = (MemStorage_new 0, None)
   \<and> \<not> Map_has (cartItems (MemStorage_new 0)) 99
   \<and> updateCartItem (MemStorage_new 0) 5 99 3 = (MemStorage_new 0, None)
   \<and> \<not> Map_has (orders (MemStorage_new 0)) 99
   \<and> updateOrderWhatsappStatus (MemStorage_new 0) 99 True = (MemStorage_new 0, None)"
proof -
  have absent:
    "\<not> Map_has (users (MemStorage_new 0)) 99" "\<not> Map_has (stores (MemStorage_new 0)) 99"
    "\<not> Map_has (categories (MemStorage_new 0)) 99" "\<not> Map_has (products (MemStorage_new 0)) 99"
    "\<not> Map_has (shopOwners (MemStorage_new 0)) 99" "\<not> Map_has (customers (MemStorage_new 0)) 99"
    "\<not> Map_has (cartItems (MemStorage_new 0)) 99" "\<not> Map_has (orders (MemStorage_new 0)) 99"
    by (simp_all add: Map_has_def seed_keys)
  show ?thesis
    using absent
      update_absent_not_found [of "MemStorage_new 0" 99
        "\<lparr>pu_id = None, pu_username = None, pu_password = None, pu_email = None,
          pu_name = Some ''Ana'', pu_role = None, pu_createdAt = None\<rparr>"
        5 "empty_PartialStore\<lparr>pst_name := Some ''Loja''\<rparr>"
        "\<lparr>pc_id = None, pc_name = Some ''Maquiagem'', pc_storeId = None, pc_createdAt = None\<rparr>"
        "empty_PartialProduct\<lparr>pp_price := Some 12\<rparr>"
        "\<lparr>pso_id = None, pso_userId = None, pso_storeId = None,
          pso_subscriptionStatus = Some ''expired'', pso_subscriptionExpiresAt = None,
          pso_stripeCustomerId = None, pso_stripePriceId = None,
          pso_stripeSubscriptionId = None\<rparr>"
        "\<lparr>pcu_id = None, pcu_userId = None, pcu_address = None, pcu_phone = Some None\<rparr>"
        3 True]
    by blast
qed

lemma normalizedProduct_eq:
  "normalizedProduct p =
     empty_PartialProduct\<lparr>pp_name := pp_name p, pp_price := pp_price p,
       pp_description := pp_description p, pp_imageUrl := pp_imageUrl p,
       pp_active := pp_active p, pp_categoryId := pp_categoryId p\<rparr>"
  by (simp add: normalizedProduct_def empty_PartialProduct_def Let_def)

lemma normalizedStore_eq:
  "normalizedStore p =
     empty_PartialStore\<lparr>pst_name := pst_name p, pst_slug := pst_slug p,
       pst_whatsappNumber := pst_whatsappNumber p, pst_logoUrl := pst_logoUrl p,
       pst_instagramUrl := pst_instagramUrl p, pst_facebookUrl := pst_facebookUrl p,
       pst_showSocialMedia := pst_showSocialMedia p, pst_active := pst_active p,
       pst_templateId := pst_templateId p\<rparr>"
  by (simp add: normalizedStore_def empty_PartialStore_def Let_def)

lemma updateProduct_found:
  "Map_get (products s) i = Some e \<Longrightarrow>
   updateProduct s now i p =
     (s\<lparr>products := Map_set (products s) i
          (e\<lparr>p_name := spread (p_name e) (pp_name p),
             p_price := spread (p_price e) (pp_price p),
             p_description := spread (p_description e) (pp_description p),
             p_imageUrl := spread (p_imageUrl e) (pp_imageUrl p),
             p_active := spread (p_active e) (pp_active p),
             p_categoryId := spread (p_categoryId e) (pp_categoryId p),
             p_updatedAt := now\<rparr>)\<rparr>,
      Some (e\<lparr>p_name := spread (p_name e) (pp_name p),
             p_price := spread (p_price e) (pp_price p),
             p_description := spread (p_description e) (pp_description p),
             p_imageUrl := spread (p_imageUrl e) (pp_imageUrl p),
             p_active := spread (p_active e) (pp_active p),
             p_categoryId := spread (p_categoryId e) (pp_categoryId p),
             p_updatedAt := now\<rparr>))"
  by (cases e) (simp add: updateProduct_def normalizedProduct_eq empty_PartialProduct_def
      spread_Product_def spread_def Let_def)

lemma updateStore_found:
  "Map_get (stores s) i = Some e \<Longrightarrow>
   updateStore s now i p =
     (s\<lparr>stores := Map_set (stores s) i
          (e\<lparr>st_name := spread (st_name e) (pst_name p),
             st_slug := spread (st_slug e) (pst_slug p),
             st_whatsappNumber := spread (st_whatsappNumber e) (pst_whatsappNumber p),
             st_logoUrl := spread (st_logoUrl e) (pst_logoUrl p),
             st_instagramUrl := spread (st_instagramUrl e) (pst_instagramUrl p),
             st_facebookUrl := spread (st_facebookUrl e) (pst_facebookUrl p),
             st_showSocialMedia := spread (st_showSocialMedia e) (pst_showSocialMedia p),
             st_active := spread (st_active e) (pst_active p),
             st_templateId := spread (st_templateId e) (pst_templateId p),
             st_updatedAt := now\<rparr>)\<rparr>,
      Some (e\<lparr>st_name := spread (st_name e) (pst_name p),
             st_slug := spread (st_slug e) (pst_slug p),
             st_whatsappNumber := spread (st_whatsappNumber e) (pst_whatsappNumber p),
             st_logoUrl := spread (st_logoUrl e) (pst_logoUrl p),
             st_instagramUrl := spread (st_instagramUrl e) (pst_instagramUrl p),
             st_facebookUrl := spread (st_facebookUrl e) (pst_facebookUrl p),
             st_showSocialMedia := spread (st_showSocialMedia e) (pst_showSocialMedia p),
             st_active := spread (st_active e) (pst_active p),
             st_templateId := spread (st_templateId e) (pst_templateId p),
             st_updatedAt := now\<rparr>))"
  by (cases e) (simp add: updateStore_def normalizedStore_eq empty_PartialStore_def
      spread_Store_def spread_def Let_def)

text \<open>
  Claim C3 (amended). For a product that exists, \<open>updateProduct\<close> returns and stores the
  existing record with exactly the keys \<open>name\<close>, \<open>price\<close>, \<open>description\<close>, \<open>imageUrl\<close>,
  \<open>active\<close> and \<open>categoryId\<close> taken from the argument where it supplies them (an explicit
  \<open>null\<close> clears \<open>description\<close>, \<open>imageUrl\<close> or \<open>categoryId\<close>) and with \<open>updatedAt\<close> set to
  the time of the call; every other key of the argument (\<open>id\<close>, \<open>storeId\<close>, \<open>createdAt\<close>,
  \<open>updatedAt\<close>) is ignored. For a store that exists, \<open>updateStore\<close> does the same with the
  keys \<open>name\<close>, \<open>slug\<close>, \<open>whatsappNumber\<close>, \<open>logoUrl\<close>, \<open>instagramUrl\<close>, \<open>facebookUrl\<close>,
  \<open>showSocialMedia\<close>, \<open>active\<close> and \<open>templateId\<close>.
\<close>

theorem update_merges_handled_keys:
  "(Map_get (products s) i = Some e \<longrightarrow>
      snd (updateProduct s now i p) =
        Some (e\<lparr>p_name := (case pp_name p of None \<Rightarrow> p_name e | Some v \<Rightarrow> v),
                p_price := (case pp_price p of None \<Rightarrow> p_price e | Some v \<Rightarrow> v),
                p_description :=
                  (case pp_description p of None \<Rightarrow> p_description e | Some v \<Rightarrow> v),
                p_imageUrl := (case pp_imageUrl p of None \<Rightarrow> p_imageUrl e | Some v \<Rightarrow> v),
                p_active := (case pp_active p of None \<Rightarrow> p_active e | Some v \<Rightarrow> v),
                p_categoryId :=
                  (case pp_categoryId p of None \<Rightarrow> p_categoryId e | Some v \<Rightarrow> v),
                p_updatedAt := now\<rparr>)
      \<and> getProduct (fst (updateProduct s now i p)) i = snd (updateProduct s now i p))
   \<and> (Map_get (stores s) j = Some f \<longrightarrow>
      snd (updateStore s now j ps) =
        Some (f\<lparr>st_name := (case pst_name ps of None \<Rightarrow> st_name f | Some v \<Rightarrow> v),
                st_slug := (case pst_slug ps of None \<Rightarrow> st_slug f | Some v \<Rightarrow> v),
                st_whatsappNumber :=
                  (case pst_whatsappNumber ps of None \<Rightarrow> st_whatsappNumber f | Some v \<Rightarrow> v),
                st_logoUrl := (case pst_logoUrl ps of None \<Rightarrow> st_logoUrl f | Some v \<Rightarrow> v),
                st_instagramUrl :=
                  (case pst_instagramUrl ps of None \<Rightarrow> st_instagramUrl f | Some v \<Rightarrow> v),
                st_facebookUrl :=
                  (case pst_facebookUrl ps of None \<Rightarrow> st_facebookUrl f | Some v \<Rightarrow> v),
                st_showSocialMedia :=
                  (case pst_showSocialMedia ps of None \<Rightarrow> st_showSocialMedia f | Some v \<Rightarrow> v),
                st_active := (case pst_active ps of None \<Rightarrow> st_active f | Some v \<Rightarrow> v),
                st_templateId :=
                  (case pst_templateId ps of None \<Rightarrow> st_templateId f | Some v \<Rightarrow> v),
                st_updatedAt := now\<rparr>)
      \<and> getStore (fst (updateStore s now j ps)) j = snd (updateStore s now j ps))"
  by (simp add: updateProduct_found updateStore_found getProduct_def getStore_def
      Map_get_set_same spread_def)

theorem update_merges_handled_keys_witness:
  "Map_get (products store_with_A) 7 = Some productA
   \<and> snd (updateProduct store_with_A 5 7
        (empty_PartialProduct\<lparr>pp_name := Some ''B'', pp_description := Some None,
           pp_storeId := Some 99\<rparr>))
     = Some (productA\<lparr>p_name := ''B'', p_description := None, p_updatedAt := 5\<rparr>)
   \<and> Map_get (stores store_with_A) 1 = Some seeded_store
   \<and> snd (updateStore store_with_A 5 1
        (empty_PartialStore\<lparr>pst_name := Some ''Loja B'', pst_slug := Some None,
           pst_id := Some 99\<rparr>))
     = Some (seeded_store\<lparr>st_name := ''Loja B'', st_slug := None, st_updatedAt := 5\<rparr>)"
  using store_with_A_products store_with_A_stores
    update_merges_handled_keys [of store_with_A 7 productA 5
      "empty_PartialProduct\<lparr>pp_name := Some ''B'', pp_description := Some None,
           pp_storeId := Some 99\<rparr>" 1 seeded_store
      "empty_PartialStore\<lparr>pst_name := Some ''Loja B'', pst_slug := Some None,
           pst_id := Some 99\<rparr>"]
  by (simp add: empty_PartialProduct_def empty_PartialStore_def productA_def seeded_store_def)

text \<open>
  As first stated, C3 has every supplied key arrive in the returned entity. The key
  \<open>storeId\<close> does not: product 7 belongs to store 1 and still does after an update that
  supplies \<open>storeId: 99\<close>.
\<close>

theorem update_ignores_storeId:
  "map_option p_storeId (getProduct store_with_A 7) = Some 1
   \<and> pp_storeId (empty_PartialProduct\<lparr>pp_storeId := Some 99\<rparr>) = Some 99
   \<and> map_option p_storeId
       (snd (updateProduct store_with_A 5 7 (empty_PartialProduct\<lparr>pp_storeId := Some 99\<rparr>)))
     = Some 1"
  by (simp add: getProduct_def store_with_A_products updateProduct_found
      empty_PartialProduct_def spread_def productA_def)

text \<open>
  Claim C5 (amended). For a stored product, \<open>updateProduct\<close> with only \<open>price\<close> supplied
  returns the product with the new price, and with only \<open>description: null\<close> supplied
  returns it with a null description; in both cases \<open>updatedAt\<close> becomes the time of the
  call and every other field keeps its value.
\<close>

theorem update_price_only:
  "Map_get (products s) i = Some e \<Longrightarrow>
   snd (updateProduct s now i (empty_PartialProduct\<lparr>pp_price := Some v\<rparr>))
     = Some (e\<lparr>p_price := v, p_updatedAt := now\<rparr>)
   \<and> snd (updateProduct s now i (empty_PartialProduct\<lparr>pp_description := Some None\<rparr>))
     = Some (e\<lparr>p_description := None, p_updatedAt := now\<rparr>)"
  by (simp add: updateProduct_found empty_PartialProduct_def spread_def)

theorem update_price_only_witness:
  "Map_get (products store_with_A) 7 = Some productA
   \<and> snd (updateProduct store_with_A 5 7 (empty_PartialProduct\<lparr>pp_price := Some 12\<rparr>))
     = Some \<lparr>p_id = 7, p_name = ''A'', p_price = 12, p_description = Some ''Batom'',
        p_imageUrl = None, p_storeId = 1, p_categoryId = Some 1, p_active = True,
        p_createdAt = 1, p_updatedAt = 5\<rparr>
   \<and> snd (updateProduct store_with_A 5 7 (empty_PartialProduct\<lparr>pp_description := Some None\<rparr>))
     = Some \<lparr>p_id = 7, p_name = ''A'', p_price = 10, p_description = None,
        p_imageUrl = None, p_storeId = 1, p_categoryId = Some 1, p_active = True,
        p_createdAt = 1, p_updatedAt = 5\<rparr>"
  using store_with_A_products update_price_only [of store_with_A 7 productA 5 12]
  by (simp add: productA_def)

text \<open>
  As first stated, C5 has every field other than the supplied one unchanged. The field
  \<open>updatedAt\<close> is not: product 7 was last updated at 1, and after an update at 5 that
  supplies only \<open>price\<close> its \<open>updatedAt\<close> is 5.
\<close>

theorem update_refreshes_updatedAt:
  "map_option p_updatedAt (getProduct store_with_A 7) = Some 1
   \<and> map_option p_updatedAt
       (snd (updateProduct store_with_A 5 7 (empty_PartialProduct\<lparr>pp_price := Some 12\<rparr>)))
     = Some 5"
  by (simp add: getProduct_def store_with_A_products updateProduct_found
      empty_PartialProduct_def spread_def productA_def)

subsection \<open>Order items\<close>

text \<open>
  Claim C8. \<open>createOrderItem\<close> stores the \<open>productName\<close> and \<open>price\<close> it is given, and
  \<open>updateProduct\<close>, called on any store with any identifier and any argument, leaves the
  collection of order items as it was: the item is still stored with the same values.
\<close>

theorem order_item_snapshot:
  "(case createOrderItem s orderItem of
      (s1, item) \<Rightarrow>
        oi_productName item = ioi_productName orderItem
        \<and> oi_price item = ioi_price orderItem
        \<and> Map_get (orderItems s1) (oi_id item) = Some item
        \<and> Map_get (orderItems (fst (updateProduct s1 now i p))) (oi_id item) = Some item)
   \<and> orderItems (fst (updateProduct s' now i p)) = orderItems s'
   \<and> getOrderItems (fst (updateProduct s' now i p)) oid = getOrderItems s' oid"
  by (simp add: createOrderItem_def Let_def Map_get_set_same updateProduct_def getOrderItems_def
      split: option.split)

theorem order_item_snapshot_witness:
  "getOrderItems
     (fst (updateProduct
        (fst (createOrderItem store_with_A
           \<lparr>ioi_orderId = 1, ioi_productName = ''A'', ioi_price = 10, ioi_quantity = 2\<rparr>))
        5 7 (empty_PartialProduct\<lparr>pp_name := Some ''B'', pp_price := Some 12\<rparr>))) 1
   = [\<lparr>oi_id = 1, oi_orderId = 1, oi_productName = ''A'', oi_price = 10, oi_quantity = 2\<rparr>]"
  using order_item_snapshot [where s = store_with_A
      and orderItem =
        "\<lparr>ioi_orderId = 1, ioi_productName = ''A'', ioi_price = 10, ioi_quantity = 2\<rparr>"
      and now = 5 and i = 7
      and p = "empty_PartialProduct\<lparr>pp_name := Some ''B'', pp_price := Some 12\<rparr>"
      and s' = "fst (createOrderItem store_with_A
           \<lparr>ioi_orderId = 1, ioi_productName = ''A'', ioi_price = 10, ioi_quantity = 2\<rparr>)"
      and oid = 1]
  by (simp add: getOrderItems_def createOrderItem_def Let_def store_with_A_def
      createProduct_def seed_keys seed_counters Map_values_def)

subsection \<open>Stripe linkage\<close>

lemma getShopOwnerByUserId_SomeD:
  "getShopOwnerByUserId s uid = Some so \<Longrightarrow>
   \<exists>r. shopOwnerRefByUserId s uid = Some r \<and> shopOwnerHeap s r = Some so \<and> so_userId so = uid"
  unfolding getShopOwnerByUserId_def shopOwnerRefByUserId_def
  by (cases "find_ref (shopOwnerHeap s) (\<lambda>owner. so_userId owner = uid) (shopOwners s)")
     (auto dest: find_ref_holds)

text \<open>
  Claim C1 (amended). When no shop owner has the given \<open>userId\<close>, \<open>updateUserStripeInfo\<close>
  returns \<open>undefined\<close> and hands back the store exactly as it was; it raises nothing.
\<close>

theorem stripe_info_absent:
  "getShopOwnerByUserId s uid = None \<Longrightarrow> updateUserStripeInfo s now uid info = (s, None)"
  by (auto simp: getShopOwnerByUserId_def updateUserStripeInfo_def split: option.splits)

theorem stripe_info_absent_witness:
  "getShopOwnerByUserId (MemStorage_new 0) 3 = None
   \<and> updateUserStripeInfo (MemStorage_new 0) 5 3 stripe_info = (MemStorage_new 0, None)"
  using stripe_info_absent [of "MemStorage_new 0" 3 5 stripe_info]
  by (simp add: seed_getShopOwnerByUserId)

text \<open>
  As first stated, C1 has the call raise an error. User 1, the administrator, has no shop
  owner, and the call for user 1 returns \<open>undefined\<close>.
\<close>

theorem stripe_info_absent_returns:
  "getShopOwnerByUserId (MemStorage_new 0) 1 = None
   \<and> snd (updateUserStripeInfo (MemStorage_new 0) 5 1 stripe_info) = None"
  by (simp add: seed_getShopOwnerByUserId updateUserStripeInfo_def shopOwnerRefByUserId_def
      find_ref_Cons find_ref_Nil seed_keys seed_shopOwnerHeap)

text \<open>
  The one error of the store is raised by \<open>updateStripeCustomerId\<close>, and for a missing
  user, not for a missing shop owner.
\<close>

lemma updateStripeCustomerId_throws:
  "getUser s uid = None \<Longrightarrow>
   updateStripeCustomerId s uid cid =
     (s, Inl (Error (''Usu'' @ [CHR 0xE1] @ ''rio n'' @ [CHR 0xE3] @ ''o encontrado'')))"
  by (simp add: updateStripeCustomerId_def)

lemma updateStripeCustomerId_no_owner:
  "getUser s uid = Some u \<Longrightarrow> getShopOwnerByUserId s uid = None \<Longrightarrow>
   updateStripeCustomerId s uid cid = (s, Inr u)"
  by (auto simp: updateStripeCustomerId_def getShopOwnerByUserId_def split: option.splits)

text \<open>
  Claim C2 (amended). For a user with a shop owner, \<open>updateUserStripeInfo\<close> sets that shop
  owner's \<open>subscriptionStatus\<close> to \<open>"active"\<close> and its \<open>subscriptionExpiresAt\<close> to the time of
  the call plus 30 days (2592000000 ms), next to the two Stripe identifiers, and the shop
  owner found for the user afterwards is the one returned. \<open>updateStripeCustomerId\<close>, for
  such a user who also has a user record, sets only \<open>stripeCustomerId\<close>:
  \<open>subscriptionStatus\<close> and \<open>subscriptionExpiresAt\<close> keep their values.
\<close>

theorem stripe_linkage:
  "getShopOwnerByUserId s uid = Some so \<Longrightarrow>
   (case updateUserStripeInfo s now uid info of
      (s', res) \<Rightarrow>
        res = Some (so\<lparr>so_stripeCustomerId := Some (customerId_of info),
                       so_stripeSubscriptionId := Some (subscriptionId_of info),
                       so_subscriptionStatus := ''active'',
                       so_subscriptionExpiresAt := Some (now + 2592000000)\<rparr>)
        \<and> getShopOwnerByUserId s' uid = res)
   \<and> (getUser s uid = Some u \<longrightarrow>
       (case updateStripeCustomerId s uid cid of
          (s', res) \<Rightarrow>
            res = Inr u
            \<and> getShopOwnerByUserId s' uid = Some (so\<lparr>so_stripeCustomerId := Some cid\<rparr>)))"
proof -
  assume "getShopOwnerByUserId s uid = Some so"
  then obtain r where r: "shopOwnerRefByUserId s uid = Some r"
    and h: "shopOwnerHeap s r = Some so" and u: "so_userId so = uid"
    using getShopOwnerByUserId_SomeD by blast
  from r have f: "find_ref (shopOwnerHeap s) (\<lambda>owner. so_userId owner = uid) (shopOwners s) = Some r"
    by (simp add: shopOwnerRefByUserId_def)
  have again: "\<And>so' k. so_userId so' = uid \<Longrightarrow>
      find_ref ((shopOwnerHeap s)(r \<mapsto> so')) (\<lambda>owner. so_userId owner = uid)
        (Map_set (shopOwners s) k r) = Some r"
    using find_ref_after_assignment [OF f] by simp
  show ?thesis
    using r h u again
    by (simp add: updateUserStripeInfo_def updateStripeCustomerId_def Let_def thirty_days_def
        getShopOwnerByUserId_def shopOwnerRefByUserId_def)
qed

theorem stripe_linkage_witness:
  "getShopOwnerByUserId (MemStorage_new 0) 2 = Some seeded_shopOwner
   \<and> getUser (MemStorage_new 0) 2 = Some seeded_shopOwnerUser
   \<and> getShopOwnerByUserId (fst (updateUserStripeInfo (MemStorage_new 0) 5 2 stripe_info)) 2
     = Some \<lparr>so_id = 1, so_userId = 2, so_storeId = Some 1, so_subscriptionStatus = ''active'',
         so_subscriptionExpiresAt = Some 2592000005, so_stripeCustomerId = Some ''cus_1'',
         so_stripePriceId = None, so_stripeSubscriptionId = Some ''sub_1''\<rparr>
   \<and> snd (updateStripeCustomerId (MemStorage_new 0) 2 ''cus_1'') = Inr seeded_shopOwnerUser
   \<and> getShopOwnerByUserId (fst (updateStripeCustomerId (MemStorage_new 0) 2 ''cus_1'')) 2
     = Some \<lparr>so_id = 1, so_userId = 2, so_storeId = Some 1, so_subscriptionStatus = ''trial'',
         so_subscriptionExpiresAt = Some 2592000000, so_stripeCustomerId = Some ''cus_1'',
         so_stripePriceId = None, so_stripeSubscriptionId = None\<rparr>"
proof -
  have so: "getShopOwnerByUserId (MemStorage_new 0) 2 = Some seeded_shopOwner"
    by (simp add: seed_getShopOwnerByUserId seeded_shopOwner_def)
  show ?thesis
    using so seed_getUser_2
      stripe_linkage [OF so, of 5 stripe_info seeded_shopOwnerUser "''cus_1''"]
    by (simp add: split_beta seeded_shopOwner_def stripe_info_def)
qed

text \<open>
  As first stated, C2 has \<open>updateStripeCustomerId\<close> activate the subscription too. The
  seeded shop owner of user 2 is on trial, and still is after \<open>updateStripeCustomerId\<close>.
\<close>

theorem customer_id_keeps_status:
  "map_option so_subscriptionStatus (getShopOwnerByUserId (MemStorage_new 0) 2) = Some ''trial''
   \<and> map_option so_subscriptionStatus
       (getShopOwnerByUserId (fst (updateStripeCustomerId (MemStorage_new 0) 2 ''cus_1'')) 2)
     = Some ''trial''"
  by (simp add: seed_getShopOwnerByUserId updateStripeCustomerId_def seed_getUser_2
      getShopOwnerByUserId_def shopOwnerRefByUserId_def find_ref_Cons find_ref_Nil seed_keys
      seed_shopOwnerHeap)

section \<open>Properties of sequences of calls\<close>

subsection \<open>What each call leaves alone\<close>

lemmas method_defs =
  createUser_def updateUser_def createStore_def updateStore_def deleteStore_def
  createCategory_def updateCategory_def deleteCategory_def createProduct_def
  updateProduct_def deleteProduct_def createShopOwner_def updateShopOwnerSubscription_def
  createCustomer_def updateCustomer_def createCart_def createCartItem_def
  updateCartItem_def deleteCartItem_def createOrder_def updateOrderWhatsappStatus_def
  createOrderItem_def updateStripeCustomerId_def updateUserStripeInfo_def


text \<open>The loop of \<open>deleteCart\<close> changes the cart items and nothing else.\<close>

lemma deleteCart_loop:
  "foldl (\<lambda>s item. s\<lparr>cartItems := fst (Map_delete (cartItems s) (ci_id item))\<rparr>) s items
   = s\<lparr>cartItems := foldl (\<lambda>m item. Map_remove m (ci_id item)) (cartItems s) items\<rparr>"
  by (induction items arbitrary: s) (simp_all add: Map_delete_def)


lemma touchCart_frame:
  "cartItems (touchCart s now c) = cartItems s"
  "products (touchCart s now c) = products s"
  "productId (touchCart s now c) = productId s"
  by (simp_all add: touchCart_def Let_def split: option.split)

lemma deleteCart_frame:
  "products (fst (deleteCart s i)) = products s"
  "productId (fst (deleteCart s i)) = productId s"
  by (simp_all add: deleteCart_def Let_def split_beta deleteCart_loop)

lemma remove_loop_filter:
  "foldl (\<lambda>m item. Map_remove m (ci_id item)) m items
   = filter (\<lambda>e. fst e \<notin> ci_id ` set items) m"
  by (induction items arbitrary: m) (auto simp: Map_remove_def intro: filter_cong)

lemma deleteCart_cartItems:
  "cartItems (fst (deleteCart s i)) =
     filter (\<lambda>e. fst e \<notin> ci_id ` {item \<in> snd ` set (cartItems s). ci_cartId item = i})
       (cartItems s)"
  by (simp add: deleteCart_def Let_def split_beta deleteCart_loop remove_loop_filter
      Map_values_def)

lemma deleteCart_result: "snd (deleteCart s i) = Map_has (carts s) i"
  unfolding deleteCart_def Let_def split_beta deleteCart_loop
  by (simp add: Map_delete_def)

subsection \<open>The invariants\<close>

lemma perform_cartItems_keyed:
  "cartItems_keyed s \<Longrightarrow> cartItems_keyed (fst (perform s now c))"
proof (cases c)
  case (CreateCartItem x)
  assume "cartItems_keyed s"
  then show ?thesis
    by (simp add: CreateCartItem cartItems_keyed_def createCartItem_def Let_def touchCart_frame
        list_all_Map_set distinct_Map_set)
next
  case (UpdateCartItem i q)
  assume k: "cartItems_keyed s"
  show ?thesis
  proof (cases "Map_get (cartItems s) i")
    case None
    with k show ?thesis by (simp add: UpdateCartItem updateCartItem_def)
  next
    case (Some e)
    with k have "ci_id e = i"
      by (auto simp: cartItems_keyed_def list_all_iff dest!: Map_get_SomeD)
    with k Some show ?thesis
      by (simp add: UpdateCartItem updateCartItem_def Let_def touchCart_frame
          cartItems_keyed_def list_all_Map_set distinct_Map_set)
  qed
next
  case (DeleteCartItem i)
  assume "cartItems_keyed s"
  then show ?thesis
    by (simp add: DeleteCartItem deleteCartItem_def Let_def touchCart_frame cartItems_keyed_def
        Map_delete_def Map_remove_def list_all_filter distinct_keys_filter split: option.split)
next
  case (DeleteCart i)
  assume "cartItems_keyed s"
  then show ?thesis
    by (simp add: DeleteCart cartItems_keyed_def deleteCart_cartItems list_all_filter
        distinct_keys_filter)
qed (simp_all add: cartItems_keyed_def method_defs Let_def split_beta split: option.split)

lemma run_cartItems_keyed: "cartItems_keyed s \<Longrightarrow> cartItems_keyed (run s cs)"
  by (induction cs arbitrary: s) (auto simp: perform_cartItems_keyed)

lemma seed_cartItems_keyed: "cartItems_keyed (MemStorage_new now)"
  by (simp add: cartItems_keyed_def seed_keys)

lemma normalizedProduct_id: "pp_id (normalizedProduct p) = None"
  by (simp add: normalizedProduct_def empty_PartialProduct_def Let_def)

lemma createProduct_ordered:
  assumes "products_ordered s"
  shows "products_ordered (fst (createProduct s now x))"
proof -
  from assms have below: "\<And>e. e \<in> set (products s) \<Longrightarrow> fst e < productId s"
    and keyed: "list_all (\<lambda>e. p_id (snd e) = fst e \<and> fst e < productId s) (products s)"
    and sorted: "sorted_wrt (<) (map fst (products s))"
    by (simp_all add: products_ordered_def list_all_iff)
  from below have fresh: "\<not> Map_has (products s) (productId s)"
    by (fastforce simp: Map_has_def)
  from keyed have "list_all (\<lambda>e. p_id (snd e) = fst e \<and> fst e < productId s + 1) (products s)"
    by (simp add: list_all_iff) force
  with sorted below show ?thesis
    by (simp add: createProduct_def Let_def products_ordered_def Map_set_fresh [OF fresh]
        sorted_wrt_append)
qed

lemma updateProduct_ordered:
  assumes "products_ordered s"
  shows "products_ordered (fst (updateProduct s now i p))"
proof (cases "Map_get (products s) i")
  case None
  with assms show ?thesis by (simp add: updateProduct_def)
next
  case (Some e)
  then have mem: "(i, e) \<in> set (products s)" by (rule Map_get_SomeD)
  with assms have e: "p_id e = i" "i < productId s"
    by (auto simp: products_ordered_def list_all_iff)
  from mem have has: "Map_has (products s) i" by (force simp: Map_has_def)
  from assms e Some show ?thesis
    by (simp add: updateProduct_def Let_def products_ordered_def list_all_Map_set
        keys_Map_set_present [OF has] spread_Product_def normalizedProduct_id spread_def)
qed

lemma deleteProduct_ordered:
  "products_ordered s \<Longrightarrow> products_ordered (fst (deleteProduct s i))"
  by (simp add: deleteProduct_def products_ordered_def Map_delete_def Map_remove_def
      list_all_filter sorted_wrt_map sorted_wrt_filter)

lemma perform_products_ordered:
  "products_ordered s \<Longrightarrow> products_ordered (fst (perform s now c))"
proof (cases c)
  case (CreateProduct x)
  assume "products_ordered s"
  then show ?thesis by (simp add: CreateProduct split_beta createProduct_ordered)
next
  case (UpdateProduct i x)
  assume "products_ordered s"
  then show ?thesis by (simp add: UpdateProduct updateProduct_ordered)
next
  case (DeleteProduct i)
  assume "products_ordered s"
  then show ?thesis by (simp add: DeleteProduct deleteProduct_ordered)
qed (simp_all add: products_ordered_def method_defs Let_def split_beta touchCart_frame
      deleteCart_frame split: option.split)

lemma run_products_ordered: "products_ordered s \<Longrightarrow> products_ordered (run s cs)"
  by (induction cs arbitrary: s) (auto simp: perform_products_ordered)

lemma seed_products_ordered: "products_ordered (MemStorage_new now)"
  by (simp add: products_ordered_def MemStorage_new_eq sample_ids)

lemma ordered_ids:
  assumes "products_ordered s"
  shows "sorted_wrt (<) (map p_id (filter Q (Map_values (products s))))"
proof -
  from assms have "map p_id (Map_values (products s)) = map fst (products s)"
    by (simp add: products_ordered_def Map_values_def list_all_iff)
  with assms have "sorted_wrt (<) (map p_id (Map_values (products s)))"
    by (simp add: products_ordered_def)
  then show ?thesis
    by (simp add: sorted_wrt_map sorted_wrt_filter)
qed

lemma product_calls_run:
  "map (\<lambda>e. (fst e, p_name (snd e), p_storeId (snd e))) (drop 5 (products (run (MemStorage_new 0) product_calls)))
   = [(7, ''A'', 1), (8, ''B'', 2), (9, ''C'', 1)]"
  "map fst (products (run (MemStorage_new 0) product_calls)) = [1, 3, 4, 5, 6, 7, 8, 9]"
  by (simp_all add: product_calls_def createProduct_def deleteProduct_def Let_def
      Map_delete_def Map_remove_def productA_input_def sampleProduct_def
      seed_counters MemStorage_new_eq)

lemma cart_calls_run:
  "cartItems (run (MemStorage_new 0) cart_calls)
     = [(1, \<lparr>ci_id = 1, ci_cartId = 1, ci_productId = 1, ci_quantity = 2\<rparr>),
        (2, \<lparr>ci_id = 2, ci_cartId = 1, ci_productId = 2, ci_quantity = 1\<rparr>)]"
  "carts (run (MemStorage_new 0) cart_calls) = [(1, 1)]"
  by (simp_all add: cart_calls_def createCart_def createCartItem_def touchCart_def Let_def
      seed_keys seed_counters MemStorage_new_eq Map_get_def)

subsection \<open>Products of a store\<close>

text \<open>
  Claim C4 (amended). For every number \<open>X\<close> other than 0, \<open>getProducts(X)\<close> returns exactly
  the products whose \<open>storeId\<close> is \<open>X\<close>, in the iteration order of the map; and in every
  store reached from the constructor by calls, that order is the order of creation: the
  identifiers of the returned products ascend.
\<close>

theorem getProducts_by_store:
  "X \<noteq> 0 \<Longrightarrow>
   getProducts s (Some X) = filter (\<lambda>product. p_storeId product = X) (Map_values (products s))
   \<and> sorted_wrt (<) (map p_id (getProducts (run (MemStorage_new t0) cs) (Some X)))"
proof -
  assume "X \<noteq> 0"
  moreover have "products_ordered (run (MemStorage_new t0) cs)"
    by (rule run_products_ordered) (rule seed_products_ordered)
  ultimately show ?thesis
    by (simp add: getProducts_def truthy_def Let_def ordered_ids)
qed

theorem getProducts_by_store_witness:
  "map p_name (getProducts (run (MemStorage_new 0) product_calls) (Some 2)) = [''B'']
   \<and> map p_id (getProducts (run (MemStorage_new 0) product_calls) (Some 1))
     = [1, 3, 4, 5, 6, 7, 9]"
  using getProducts_by_store [of 2 "run (MemStorage_new 0) product_calls" 0 product_calls]
    getProducts_by_store [of 1 "run (MemStorage_new 0) product_calls" 0 product_calls]
  by (simp add: product_calls_def createProduct_def deleteProduct_def Let_def
      Map_delete_def Map_remove_def productA_input_def sampleProduct_def Map_values_def
      seed_counters MemStorage_new_eq or_null_def)

text \<open>
  As first stated, C4 is about every number. For 0 the test \<open>if (storeId)\<close> fails and the
  method returns all products: on the seeded store \<open>getProducts(0)\<close> returns the six
  products of store 1, none of which has \<open>storeId\<close> 0.
\<close>

theorem getProducts_zero_returns_all:
  "map p_storeId (getProducts (MemStorage_new 0) (Some 0)) = [1, 1, 1, 1, 1, 1]
   \<and> filter (\<lambda>product. p_storeId product = 0) (Map_values (products (MemStorage_new 0))) = []"
  by (simp add: getProducts_def truthy_def Let_def MemStorage_new_eq Map_values_def
      sampleProduct_def)

subsection \<open>Deleting a cart\<close>

lemma deleteCart_cascade_keyed:
  assumes "cartItems_keyed s"
  shows "cartItems (fst (deleteCart s i)) = filter (\<lambda>e. ci_cartId (snd e) \<noteq> i) (cartItems s)"
proof -
  from assms have keyed: "\<And>e. e \<in> set (cartItems s) \<Longrightarrow> ci_id (snd e) = fst e"
    and dist: "distinct (map fst (cartItems s))"
    by (simp_all add: cartItems_keyed_def list_all_iff)
  have "(fst e \<notin> ci_id ` {item \<in> snd ` set (cartItems s). ci_cartId item = i})
        = (ci_cartId (snd e) \<noteq> i)" if e: "e \<in> set (cartItems s)" for e
  proof
    assume "fst e \<notin> ci_id ` {item \<in> snd ` set (cartItems s). ci_cartId item = i}"
    with keyed [OF e] e show "ci_cartId (snd e) \<noteq> i" by force
  next
    assume ne: "ci_cartId (snd e) \<noteq> i"
    show "fst e \<notin> ci_id ` {item \<in> snd ` set (cartItems s). ci_cartId item = i}"
    proof
      assume "fst e \<in> ci_id ` {item \<in> snd ` set (cartItems s). ci_cartId item = i}"
      then obtain e' where e': "e' \<in> set (cartItems s)" "ci_cartId (snd e') = i"
        "fst e = ci_id (snd e')" by auto
      with keyed [OF e'(1)] have "fst e = fst e'" by simp
      with dist e e'(1) have "e = e'"
        by (metis eq_key_imp_eq_value prod.collapse)
      with ne e'(2) show False by simp
    qed
  qed
  then show ?thesis
    by (simp add: deleteCart_cartItems cong: filter_cong)
qed

text \<open>
  Claim C6. In every store reached from the constructor by calls, \<open>deleteCart(id)\<close> leaves
  no cart item whose \<open>cartId\<close> is \<open>id\<close> (it removes exactly those items) and returns
  whether \<open>id\<close> was a key of the carts.
\<close>

theorem deleteCart_cascade:
  "getCartItems (fst (deleteCart (run (MemStorage_new t0) cs) i)) i = []
   \<and> cartItems (fst (deleteCart (run (MemStorage_new t0) cs) i))
     = filter (\<lambda>e. ci_cartId (snd e) \<noteq> i) (cartItems (run (MemStorage_new t0) cs))
   \<and> snd (deleteCart (run (MemStorage_new t0) cs) i) = Map_has (carts (run (MemStorage_new t0) cs)) i"
proof -
  have "cartItems_keyed (run (MemStorage_new t0) cs)"
    by (rule run_cartItems_keyed) (rule seed_cartItems_keyed)
  then show ?thesis
    by (simp add: deleteCart_cascade_keyed deleteCart_result getCartItems_def Map_values_def
        filter_map comp_def filter_empty_conv)
qed

theorem deleteCart_cascade_witness:
  "length (getCartItems (run (MemStorage_new 0) cart_calls) 1) = 2
   \<and> getCartItems (fst (deleteCart (run (MemStorage_new 0) cart_calls) 1)) 1 = []
   \<and> cartItems (fst (deleteCart (run (MemStorage_new 0) cart_calls) 1)) = []
   \<and> snd (deleteCart (run (MemStorage_new 0) cart_calls) 1) = True"
  using deleteCart_cascade [of 0 cart_calls 1]
  by (simp add: cart_calls_run getCartItems_def Map_values_def Map_has_def)

subsection \<open>Identifiers\<close>










end
